theory Spec2Isabelle
  imports Main "HOL-Library.Char_ord" "HOL-Library.List_Lexorder"
begin

section \<open>JavaScript strings\<close>

text \<open>
  The schema and record subsystem lives in \<^verbatim>\<open>Schemas/db.js\<close> (the two object stores),
  \<^verbatim>\<open>Schemas/schema.js\<close> (schema modal, save, delete, import) and
  \<^verbatim>\<open>Schemas/records.js\<close> (record table, record form, save, update).

  A JavaScript string is modelled by its UTF-8 bytes. \<^verbatim>\<open>String.prototype.trim\<close> removes
  the WhiteSpace and LineTerminator code points from both ends: TAB, LF, VT, FF, CR, SP,
  U+00A0, U+1680, U+2000..U+200A, U+2028, U+2029, U+202F, U+205F, U+3000 and U+FEFF.
\<close>

definition ascii_ws :: "char \<Rightarrow> bool" where
  "ascii_ws c = (c \<in> set [CHR 0x09, CHR 0x0A, CHR 0x0B, CHR 0x0C, CHR 0x0D, CHR 0x20])"

definition unicode_ws3 :: "string list" where
  "unicode_ws3 =
     [[CHR 0xE1, CHR 0x9A, CHR 0x80],
      [CHR 0xE2, CHR 0x80, CHR 0x80], [CHR 0xE2, CHR 0x80, CHR 0x81],
      [CHR 0xE2, CHR 0x80, CHR 0x82], [CHR 0xE2, CHR 0x80, CHR 0x83],
      [CHR 0xE2, CHR 0x80, CHR 0x84], [CHR 0xE2, CHR 0x80, CHR 0x85],
      [CHR 0xE2, CHR 0x80, CHR 0x86], [CHR 0xE2, CHR 0x80, CHR 0x87],
      [CHR 0xE2, CHR 0x80, CHR 0x88], [CHR 0xE2, CHR 0x80, CHR 0x89],
      [CHR 0xE2, CHR 0x80, CHR 0x8A],
      [CHR 0xE2, CHR 0x80, CHR 0xA8], [CHR 0xE2, CHR 0x80, CHR 0xA9],
      [CHR 0xE2, CHR 0x80, CHR 0xAF], [CHR 0xE2, CHR 0x81, CHR 0x9F],
      [CHR 0xE3, CHR 0x80, CHR 0x80], [CHR 0xEF, CHR 0xBB, CHR 0xBF]]"

text \<open>The number of bytes of the white space character a string starts (ends) with; 0 if none.\<close>

definition ws_len_start :: "string \<Rightarrow> nat" where
  "ws_len_start s =
     (if s = [] then 0
      else if ascii_ws (hd s) then 1
      else if take 2 s = [CHR 0xC2, CHR 0xA0] then 2
      else if take 3 s \<in> set unicode_ws3 then 3
      else 0)"

definition ws_len_end :: "string \<Rightarrow> nat" where
  "ws_len_end s =
     (if s = [] then 0
      else if ascii_ws (last s) then 1
      else if 2 \<le> length s \<and> drop (length s - 2) s = [CHR 0xC2, CHR 0xA0] then 2
      else if 3 \<le> length s \<and> drop (length s - 3) s \<in> set unicode_ws3 then 3
      else 0)"

function trim_start :: "string \<Rightarrow> string" where
  "trim_start s = (if ws_len_start s = 0 then s else trim_start (drop (ws_len_start s) s))"
  by pat_completeness auto
termination
proof (relation "measure length")
  show "wf (measure length)" by simp
next
  fix s :: string
  assume "ws_len_start s \<noteq> 0"
  then have "s \<noteq> []" by (auto simp: ws_len_start_def)
  with \<open>ws_len_start s \<noteq> 0\<close> show "(drop (ws_len_start s) s, s) \<in> measure length"
    by (cases s) auto
qed

function trim_end :: "string \<Rightarrow> string" where
  "trim_end s = (if ws_len_end s = 0 then s else trim_end (take (length s - ws_len_end s) s))"
  by pat_completeness auto
termination
proof (relation "measure length")
  show "wf (measure length)" by simp
next
  fix s :: string
  assume "ws_len_end s \<noteq> 0"
  then have "s \<noteq> []" by (auto simp: ws_len_end_def)
  with \<open>ws_len_end s \<noteq> 0\<close> show "(take (length s - ws_len_end s) s, s) \<in> measure length"
    by (cases s) auto
qed

declare trim_start.simps [simp del] trim_end.simps [simp del]

definition js_trim :: "string \<Rightarrow> string" where
  "js_trim s = trim_end (trim_start s)"

text \<open>\<^verbatim>\<open>s.split(',')\<close>: the pieces between the commas; the empty string gives one empty piece.\<close>

fun split_comma :: "string \<Rightarrow> string list" where
  "split_comma [] = [[]]"
| "split_comma (c # cs) =
     (if c = CHR '','' then [] # split_comma cs
      else (case split_comma cs of [] \<Rightarrow> [[c]] | w # ws \<Rightarrow> (c # w) # ws))"

subsection \<open>Decimal numerals\<close>

definition is_digit :: "char \<Rightarrow> bool" where
  "is_digit c = (c \<in> set ''0123456789'')"

definition digit_val :: "char \<Rightarrow> int" where
  "digit_val c = of_char c - 48"

definition digit_char :: "nat \<Rightarrow> char" where
  "digit_char d = ''0123456789'' ! d"

definition digits_val :: "string \<Rightarrow> int" where
  "digits_val s = foldl (\<lambda>a c. 10 * a + digit_val c) 0 s"

text \<open>\<^verbatim>\<open>String(n)\<close> for a non-negative integer below \<open>10^21\<close>: its decimal digits.\<close>

function show_nat :: "nat \<Rightarrow> string" where
  "show_nat n = (if n < 10 then [digit_char n] else show_nat (n div 10) @ [digit_char (n mod 10)])"
  by pat_completeness auto
termination
  by (relation "measure id") auto

declare show_nat.simps [simp del]

section \<open>JavaScript values\<close>

text \<open>
  The record form stores \<^verbatim>\<open>el.value\<close> (a string) or \<^verbatim>\<open>el.checked\<close> (a boolean) per
  property, so these are the values of a record's \<^verbatim>\<open>data\<close> object.
\<close>

datatype jsval = JStr string | JBool bool

fun truthy :: "jsval \<Rightarrow> bool" where
  "truthy (JStr s) = (s \<noteq> [])"
| "truthy (JBool b) = b"

fun to_string :: "jsval \<Rightarrow> string" where
  "to_string (JStr s) = s"
| "to_string (JBool b) = (if b then ''true'' else ''false'')"

text \<open>
  ToNumber, as far as \<^verbatim>\<open>rec.id == v\<close> can tell. A record id is an integer of the key
  generator, from 1 to \<open>2^53\<close>, and every integer up to \<open>2^53\<close> is a double, so a
  number is kept as \<open>Num n\<close> when the double is the integer \<open>n\<close> with
  \<open>\<bar>n\<bar> \<le> 2^53\<close>, as \<open>NaN\<close>, or as \<open>OtherNumber\<close>: a fraction, a number
  beyond \<open>2^53\<close> or an infinity, which equals no id.

  A string is trimmed; the empty string is 0; a string that is no numeric literal is NaN. A
  literal is \<^verbatim>\<open>0x\<close>, \<^verbatim>\<open>0o\<close> or \<^verbatim>\<open>0b\<close> with digits of that radix, or an optional
  sign before \<^verbatim>\<open>Infinity\<close> or before decimal digits with an optional fraction and an
  optional exponent. Its value is rounded to the nearest double, ties to the even
  significand, as engines do.
\<close>

datatype jsnumber = Num int | NaN | OtherNumber

definition is_hex_digit :: "char \<Rightarrow> bool" where
  "is_hex_digit c = (c \<in> set ''0123456789abcdefABCDEF'')"

definition hex_val :: "char \<Rightarrow> int" where
  "hex_val c =
     (if is_digit c then of_char c - 48
      else if c \<in> set ''abcdef'' then of_char c - 87
      else of_char c - 55)"

definition radix_val :: "int \<Rightarrow> string \<Rightarrow> int" where
  "radix_val b s = foldl (\<lambda>a c. b * a + hex_val c) 0 s"

text \<open>\<^verbatim>\<open>0x1F\<close>, \<^verbatim>\<open>0o17\<close>, \<^verbatim>\<open>0b101\<close>: the integer, if the string is such a literal.\<close>

definition parse_nondecimal :: "string \<Rightarrow> int option" where
  "parse_nondecimal t =
     (case t of
        z # x # ds \<Rightarrow>
          if z \<noteq> CHR ''0'' \<or> ds = [] then None
          else if x \<in> set ''xX'' \<and> list_all is_hex_digit ds then Some (radix_val 16 ds)
          else if x \<in> set ''oO'' \<and> list_all (\<lambda>c. c \<in> set ''01234567'') ds
            then Some (radix_val 8 ds)
          else if x \<in> set ''bB'' \<and> list_all (\<lambda>c. c \<in> set ''01'') ds
            then Some (radix_val 2 ds)
          else None
      | _ \<Rightarrow> None)"

text \<open>The exponent part: nothing, or \<^verbatim>\<open>e\<close> or \<^verbatim>\<open>E\<close>, an optional sign and digits.\<close>

definition parse_exponent :: "string \<Rightarrow> int option" where
  "parse_exponent r =
     (case r of
        [] \<Rightarrow> Some 0
      | e # ds \<Rightarrow>
          if e \<notin> set ''eE'' then None
          else
            let neg = (ds \<noteq> [] \<and> hd ds = CHR ''-'');
                body = (if ds \<noteq> [] \<and> (hd ds = CHR ''+'' \<or> hd ds = CHR ''-'') then tl ds else ds)
            in if body \<noteq> [] \<and> list_all is_digit body
               then Some (if neg then - digits_val body else digits_val body)
               else None)"

text \<open>
  An unsigned decimal literal \<^verbatim>\<open>12\<close>, \<^verbatim>\<open>12.\<close>, \<^verbatim>\<open>12.5\<close>, \<^verbatim>\<open>.5\<close>, each with an
  optional exponent: the pair \<open>(m, e)\<close> whose value is \<open>m * 10^e\<close>.
\<close>

definition parse_unsigned_decimal :: "string \<Rightarrow> (int \<times> int) option" where
  "parse_unsigned_decimal u =
     (let ip = takeWhile is_digit u;
          r1 = dropWhile is_digit u;
          dot = (r1 \<noteq> [] \<and> hd r1 = CHR ''.'');
          fp = (if dot then takeWhile is_digit (tl r1) else []);
          r2 = (if dot then dropWhile is_digit (tl r1) else r1)
      in if ip = [] \<and> fp = [] then None
         else (case parse_exponent r2 of
                 None \<Rightarrow> None
               | Some e \<Rightarrow> Some (digits_val (ip @ fp), e - int (length fp))))"

text \<open>
  Rounding the fraction \<open>a / b\<close> (\<open>a \<ge> 0\<close>, \<open>b > 0\<close>) to the nearest integer, ties to
  even; and to the nearest double. Below \<open>2^52\<close> the doubles are the multiples of
  \<open>2^-s\<close>, where \<open>s\<close> is the least shift that brings the fraction to \<open>2^52\<close> or more,
  and at most 1074.
\<close>

definition round_half_even :: "int \<Rightarrow> int \<Rightarrow> int" where
  "round_half_even a b =
     (let f = a div b; r = a mod b
      in if 2 * r < b then f
         else if b < 2 * r then f + 1
         else if even f then f else f + 1)"

fun binade_shift :: "nat \<Rightarrow> int \<Rightarrow> int \<Rightarrow> nat" where
  "binade_shift 0 a b = 0"
| "binade_shift (Suc fuel) a b =
     (if 4503599627370496 * b \<le> a then 0 else Suc (binade_shift fuel (2 * a) b))"

definition round_to_number :: "int \<Rightarrow> int \<Rightarrow> jsnumber" where
  "round_to_number a b =
     (if 9007199254740993 * b < a then OtherNumber
      else if 9007199254740992 * b \<le> a then Num 9007199254740992
      else
        let s = binade_shift 1074 a b;
            m = round_half_even (a * 2 ^ s) b
        in if m mod 2 ^ s = 0 then Num (m div 2 ^ s) else OtherNumber)"

fun negate :: "jsnumber \<Rightarrow> jsnumber" where
  "negate (Num n) = Num (- n)"
| "negate NaN = NaN"
| "negate OtherNumber = OtherNumber"

definition str_to_number :: "string \<Rightarrow> jsnumber" where
  "str_to_number s =
     (let t = js_trim s in
      if t = [] then Num 0
      else
        let neg = (hd t = CHR ''-'');
            body = (if hd t = CHR ''+'' \<or> hd t = CHR ''-'' then tl t else t)
        in if body \<noteq> [] \<and> list_all is_digit body \<and> digits_val body \<le> 9007199254740992
           then Num (if neg then - digits_val body else digits_val body)
           else
             (case parse_nondecimal t of
                Some n \<Rightarrow> round_to_number n 1
              | None \<Rightarrow>
                  if body = ''Infinity'' then OtherNumber
                  else
                    (case parse_unsigned_decimal body of
                       None \<Rightarrow> NaN
                     | Some (m, e) \<Rightarrow>
                         let x = (if 0 \<le> e then round_to_number (m * 10 ^ nat e) 1
                                  else round_to_number m (10 ^ nat (- e)))
                         in if neg then negate x else x)))"

fun to_number :: "jsval \<Rightarrow> jsnumber" where
  "to_number (JStr s) = str_to_number s"
| "to_number (JBool b) = Num (if b then 1 else 0)"

section \<open>Plain objects\<close>

text \<open>
  A \<^verbatim>\<open>data\<close> object is the list of its own properties in the order of
  \<^verbatim>\<open>Object.keys\<close>: array indices (canonical numerals below \<open>2^32 - 1\<close>) ascending, then
  the other keys in insertion order. Reading a key that is not an own property finds the
  members of \<^verbatim>\<open>Object.prototype\<close>; assigning a primitive to \<^verbatim>\<open>__proto__\<close> does nothing.
\<close>

type_synonym jsobject = "(string \<times> jsval) list"

definition proto_names :: "string list" where
  "proto_names =
     [''constructor'', ''hasOwnProperty'', ''isPrototypeOf'', ''propertyIsEnumerable'',
      ''toLocaleString'', ''toString'', ''valueOf'', ''__proto__'',
      ''__defineGetter__'', ''__defineSetter__'', ''__lookupGetter__'', ''__lookupSetter__'']"

datatype lookup = Undefined | Own jsval | Inherited

definition obj_get :: "jsobject \<Rightarrow> string \<Rightarrow> lookup" where
  "obj_get ob k =
     (case map_of ob k of
        Some v \<Rightarrow> Own v
      | None \<Rightarrow> if k \<in> set proto_names then Inherited else Undefined)"

definition is_array_index :: "string \<Rightarrow> bool" where
  "is_array_index k =
     (k \<noteq> [] \<and> list_all is_digit k \<and> (k = ''0'' \<or> hd k \<noteq> CHR ''0'') \<and>
      digits_val k < 4294967295)"

fun insert_index :: "string \<Rightarrow> jsval \<Rightarrow> jsobject \<Rightarrow> jsobject" where
  "insert_index k v [] = [(k, v)]"
| "insert_index k v (e # es) =
     (if is_array_index (fst e) \<and> digits_val (fst e) < digits_val k
      then e # insert_index k v es
      else (k, v) # e # es)"

definition obj_set :: "jsobject \<Rightarrow> string \<Rightarrow> jsval \<Rightarrow> jsobject" where
  "obj_set ob k v =
     (if k = ''__proto__'' then ob
      else if k \<in> fst ` set ob then map (\<lambda>e. if fst e = k then (k, v) else e) ob
      else if is_array_index k then insert_index k v ob
      else ob @ [(k, v)])"

section \<open>The object stores of db.js\<close>

text \<open>
  An object store is the list of its values in key order, as \<^verbatim>\<open>getAll\<close> and a cursor
  give them. \<^verbatim>\<open>put\<close> replaces the value stored under the same key or inserts a new one
  at its place in the order; \<^verbatim>\<open>delete\<close> removes the value under a key. Record ids are
  numbers; schema names are compared as byte strings, which orders them as their code
  points (no operation of the model depends on the order of the schemas). Failures of the
  store itself (it cannot be opened, a transaction aborts) are not modelled.
\<close>

fun store_put :: "('a \<Rightarrow> 'k::linorder) \<Rightarrow> 'a \<Rightarrow> 'a list \<Rightarrow> 'a list" where
  "store_put key v [] = [v]"
| "store_put key v (x # xs) =
     (if key x = key v then v # xs
      else if key v < key x then v # x # xs
      else x # store_put key v xs)"

definition store_delete :: "('a \<Rightarrow> 'k) \<Rightarrow> 'k \<Rightarrow> 'a list \<Rightarrow> 'a list" where
  "store_delete key k xs = filter (\<lambda>x. key x \<noteq> k) xs"

section \<open>Data model\<close>

text \<open>
  A schema is \<^verbatim>\<open>{ name, properties }\<close>; a property is
  \<^verbatim>\<open>{ name, type, options, isMandatory, relatedSchema }\<close>, its type kept as the string the
  code compares (\<^verbatim>\<open>p.type === 'Relation'\<close>). A record is
  \<^verbatim>\<open>{ id, schema, data, createdAt, createdTime, createdBy, lastEditedTime, lastEditedBy }\<close>;
  \<open>rec_fields\<close> is the object before the store has given it an id. Every record the
  save handler writes has all of these fields, \<^verbatim>\<open>data\<close> included.
\<close>

record property =
  pname :: string
  ptype :: string
  options :: "string list"
  isMandatory :: bool
  relatedSchema :: "string option"

record schema =
  sname :: string
  properties :: "property list"

record rec_fields =
  rschema :: string
  data :: jsobject
  createdAt :: int
  createdTime :: string
  createdBy :: string
  lastEditedTime :: string
  lastEditedBy :: string

record stored_rec = rec_fields +
  rid :: nat

text \<open>
  The state of the page: the two object stores with the key generator of the record store,
  the \<^verbatim>\<open>schemasCache\<close> entry of localStorage, the module variables of schema.js
  (\<^verbatim>\<open>editMode\<close>, \<^verbatim>\<open>editingSchemaName\<close>) and those of records.js
  (\<^verbatim>\<open>activeSchema\<close>, \<^verbatim>\<open>editMode\<close>, \<^verbatim>\<open>editingRecordId\<close>).
\<close>

record app =
  schemas :: "schema list"
  records :: "stored_rec list"
  keygen :: nat
  schemasCache :: "schema list"
  schema_editMode :: bool
  editingSchemaName :: "string option"
  activeSchema :: "schema option"
  record_editMode :: bool
  editingRecordId :: "nat option"

text \<open>What a handler ends with: it ran to its end, it stopped at an \<^verbatim>\<open>alert\<close>, or it threw.\<close>

datatype alert =
    SchemaNameRequired
  | NoProperties
  | NameTaken
  | SelectSchemaFirst
  | MissingFields "string list"
  | RecordNotFound
  | SchemasImported
  | ImportFailed

datatype js_exception = TypeError | DataError

datatype outcome = Completed | Alert alert | Thrown js_exception

subsection \<open>schemaStore and recordStore\<close>

definition schemaStore_getAll :: "app \<Rightarrow> schema list" where
  "schemaStore_getAll st = schemas st"

definition schemaStore_put :: "schema \<Rightarrow> app \<Rightarrow> app" where
  "schemaStore_put s st = st\<lparr>schemas := store_put sname s (schemas st)\<rparr>"

definition schemaStore_delete :: "string \<Rightarrow> app \<Rightarrow> app" where
  "schemaStore_delete name st = st\<lparr>schemas := store_delete sname name (schemas st)\<rparr>"

definition recordStore_all :: "app \<Rightarrow> stored_rec list" where
  "recordStore_all st = records st"

text \<open>
  \<^verbatim>\<open>recordStore.add(rec)\<close> is \<^verbatim>\<open>put\<close> on a store with \<^verbatim>\<open>keyPath: 'id'\<close> and
  \<^verbatim>\<open>autoIncrement\<close>: an object that has an id is stored under it (and the key generator
  moves past it), an object without one gets the generator's next number.
\<close>

definition recordStore_add :: "stored_rec \<Rightarrow> app \<Rightarrow> app" where
  "recordStore_add r st =
     st\<lparr>records := store_put rid r (records st),
        keygen := max (keygen st) (Suc (rid r))\<rparr>"

definition with_id :: "rec_fields \<Rightarrow> nat \<Rightarrow> stored_rec" where
  "with_id f k =
     \<lparr>rschema = rschema f, data = data f, createdAt = createdAt f,
      createdTime = createdTime f, createdBy = createdBy f,
      lastEditedTime = lastEditedTime f, lastEditedBy = lastEditedBy f, rid = k\<rparr>"

definition recordStore_add_new :: "rec_fields \<Rightarrow> app \<Rightarrow> app" where
  "recordStore_add_new f st =
     st\<lparr>records := store_put rid (with_id f (keygen st)) (records st),
        keygen := Suc (keygen st)\<rparr>"

text \<open>The cursor loops: one step per stored record, in key order.\<close>

fun deleteBySchema_cursor :: "string \<Rightarrow> stored_rec list \<Rightarrow> stored_rec list" where
  "deleteBySchema_cursor name [] = []"
| "deleteBySchema_cursor name (cur # rest) =
     (if rschema cur = name then deleteBySchema_cursor name rest
      else cur # deleteBySchema_cursor name rest)"

definition recordStore_deleteBySchema :: "string \<Rightarrow> app \<Rightarrow> app" where
  "recordStore_deleteBySchema name st =
     st\<lparr>records := deleteBySchema_cursor name (records st)\<rparr>"

fun renameSchema_cursor :: "string \<Rightarrow> string \<Rightarrow> stored_rec list \<Rightarrow> stored_rec list" where
  "renameSchema_cursor oldName newName [] = []"
| "renameSchema_cursor oldName newName (v # rest) =
     (if rschema v = oldName
      then v\<lparr>rschema := newName\<rparr> # renameSchema_cursor oldName newName rest
      else v # renameSchema_cursor oldName newName rest)"

definition recordStore_renameSchema :: "string \<Rightarrow> string \<Rightarrow> app \<Rightarrow> app" where
  "recordStore_renameSchema oldName newName st =
     st\<lparr>records := renameSchema_cursor oldName newName (records st)\<rparr>"

section \<open>schema.js\<close>

text \<open>
  \<^verbatim>\<open>openSchemaModal(schema)\<close> sets the module variables: \<^verbatim>\<open>editMode = !!schema\<close> and
  \<^verbatim>\<open>editingSchemaName = schema ? schema.name : null\<close>.
\<close>

definition openSchemaModal :: "schema option \<Rightarrow> app \<Rightarrow> app" where
  "openSchemaModal sc st =
     st\<lparr>schema_editMode := (sc \<noteq> None), editingSchemaName := map_option sname sc\<rparr>"

text \<open>A \<^verbatim>\<open>.prop-row\<close> of the schema modal, as the save handler reads it.\<close>

record prop_row =
  pname_value :: string
  ptype_value :: string
  poptions_value :: string
  pmandatory_checked :: bool
  prelatedschema_value :: string

definition row_property :: "prop_row \<Rightarrow> property" where
  "row_property r =
     \<lparr>pname = js_trim (pname_value r),
      ptype = ptype_value r,
      options = filter (\<lambda>x. x \<noteq> []) (map js_trim (split_comma (poptions_value r))),
      isMandatory = pmandatory_checked r,
      relatedSchema =
        (if prelatedschema_value r = [] then None else Some (prelatedschema_value r))\<rparr>"

text \<open>
  The click handler of \<^verbatim>\<open>#btnSaveSchema\<close>, on the value of \<^verbatim>\<open>#schemaName\<close> and the
  property rows. In edit mode with another name the records are renamed first, then the old
  entry is deleted, then the new one is put. \<^verbatim>\<open>schemaStore.delete(null)\<close> is rejected by
  the store (null is no key), which is the only way the handler throws.
\<close>

definition btnSaveSchema :: "string \<Rightarrow> prop_row list \<Rightarrow> app \<Rightarrow> outcome \<times> app" where
  "btnSaveSchema schemaName rows st =
     (let name = js_trim schemaName in
      if name = [] then (Alert SchemaNameRequired, st)
      else
        let props = filter (\<lambda>p. pname p \<noteq> []) (map row_property rows) in
        if props = [] then (Alert NoProperties, st)
        else
          let existing = schemaStore_getAll st;
              nameTaken =
                list_ex (\<lambda>s. sname s = name \<and>
                   (\<not> schema_editMode st \<or> Some (sname s) \<noteq> editingSchemaName st)) existing
          in
          if nameTaken then (Alert NameTaken, st)
          else if schema_editMode st then
            (if Some name \<noteq> editingSchemaName st then
               (case editingSchemaName st of
                  None \<Rightarrow> (Thrown DataError, st)
                | Some old \<Rightarrow>
                    (Completed,
                     schemaStore_put \<lparr>sname = name, properties = props\<rparr>
                       (schemaStore_delete old (recordStore_renameSchema old name st))))
             else (Completed, schemaStore_put \<lparr>sname = name, properties = props\<rparr> st))
          else (Completed, schemaStore_put \<lparr>sname = name, properties = props\<rparr> st))"

text \<open>
  \<^verbatim>\<open>deleteSchemaFlow(schemaName)\<close> with the answers of its two \<^verbatim>\<open>confirm\<close> dialogs:
  delete at all, and delete the records too.
\<close>

definition deleteSchemaFlow :: "string \<Rightarrow> bool \<Rightarrow> bool \<Rightarrow> app \<Rightarrow> app" where
  "deleteSchemaFlow schemaName confirmed withRecords st =
     (if \<not> confirmed then st
      else
        let st1 = schemaStore_delete schemaName st in
        if withRecords then recordStore_deleteBySchema schemaName st1 else st1)"

text \<open>
  \<^verbatim>\<open>importSchemas\<close> reads a file: there may be none, \<^verbatim>\<open>JSON.parse\<close> may throw, the
  value may be no array. Of an array element the handler reads \<^verbatim>\<open>sc.name\<close> and
  \<^verbatim>\<open>sc.properties\<close>; the model covers elements that are falsy, or objects whose name is a
  string or missing and whose properties are an array of property objects or no array.
\<close>

datatype parsed_item =
    Falsy
  | SchemaObject (item_name: "string option") (item_properties: "property list option")

datatype parsed_file = NoFile | ParseFailure | NotArray | ItemArray "parsed_item list"

fun import_item :: "parsed_item \<Rightarrow> app \<Rightarrow> app" where
  "import_item Falsy st = st"
| "import_item (SchemaObject (Some n) (Some ps)) st =
     (if n \<noteq> [] then schemaStore_put \<lparr>sname = n, properties = ps\<rparr> st else st)"
| "import_item (SchemaObject _ _) st = st"

definition importSchemas :: "parsed_file \<Rightarrow> app \<Rightarrow> outcome \<times> app" where
  "importSchemas f st =
     (case f of
        NoFile \<Rightarrow> (Completed, st)
      | ParseFailure \<Rightarrow> (Alert ImportFailed, st)
      | NotArray \<Rightarrow> (Alert ImportFailed, st)
      | ItemArray items \<Rightarrow> (Alert SchemasImported, foldl (\<lambda>s sc. import_item sc s) st items))"

section \<open>records.js\<close>

subsection \<open>Opening the record modal\<close>

text \<open>
  The \<^verbatim>\<open>DOMContentLoaded\<close> listener of records.js copies the schema store into the
  \<^verbatim>\<open>schemasCache\<close> entry of localStorage; nothing else writes that entry.
\<close>

definition domContentLoaded :: "app \<Rightarrow> app" where
  "domContentLoaded st = st\<lparr>schemasCache := schemaStore_getAll st\<rparr>"

definition openRecordModal :: "schema \<Rightarrow> app \<Rightarrow> app" where
  "openRecordModal sc st =
     st\<lparr>activeSchema := Some sc, record_editMode := False, editingRecordId := None\<rparr>"

text \<open>
  \<^verbatim>\<open>openRecordModalForEdit(record)\<close> takes the schema of the record from
  \<^verbatim>\<open>schemasCache\<close>, and a schema without properties when the cache has none of that name.
\<close>

definition openRecordModalForEdit :: "stored_rec \<Rightarrow> app \<Rightarrow> app" where
  "openRecordModalForEdit record st =
     st\<lparr>record_editMode := True,
        editingRecordId := Some (rid record),
        activeSchema :=
          Some (case find (\<lambda>s. sname s = rschema record) (schemasCache st) of
                  Some schemaObj \<Rightarrow> schemaObj
                | None \<Rightarrow> \<lparr>sname = rschema record, properties = []\<rparr>)\<rparr>"

subsection \<open>The form\<close>

text \<open>
  \<^verbatim>\<open>buildForm\<close> makes one element with a \<^verbatim>\<open>data-prop\<close> attribute per property, in the
  order of the properties: a checkbox for type Checkbox, an element read by its
  \<^verbatim>\<open>value\<close> for every other type. What the elements hold at the click is the user's input.
\<close>

datatype form_el = ValueEl string string | CheckboxEl string bool

fun el_prop :: "form_el \<Rightarrow> string" where
  "el_prop (ValueEl k v) = k"
| "el_prop (CheckboxEl k c) = k"

fun el_is_checkbox :: "form_el \<Rightarrow> bool" where
  "el_is_checkbox (ValueEl k v) = False"
| "el_is_checkbox (CheckboxEl k c) = True"

definition buildForm_fields :: "schema \<Rightarrow> (string \<times> bool) list" where
  "buildForm_fields sc = map (\<lambda>p. (pname p, ptype p = ''Checkbox'')) (properties sc)"

definition form_of :: "schema \<Rightarrow> form_el list \<Rightarrow> bool" where
  "form_of sc els = (map (\<lambda>e. (el_prop e, el_is_checkbox e)) els = buildForm_fields sc)"

text \<open>The loop over \<^verbatim>\<open>#recordForm [data-prop]\<close> that fills \<^verbatim>\<open>data\<close>.\<close>

fun collect_el :: "jsobject \<Rightarrow> form_el \<Rightarrow> jsobject" where
  "collect_el d (ValueEl k v) = obj_set d k (JStr v)"
| "collect_el d (CheckboxEl k c) = obj_set d k (JBool c)"

definition collect :: "form_el list \<Rightarrow> jsobject" where
  "collect els = foldl collect_el [] els"

subsection \<open>Mandatory fields\<close>

text \<open>
  The \<^verbatim>\<open>forEach\<close> over \<^verbatim>\<open>activeSchema.properties\<close>. \<^verbatim>\<open>value.trim()\<close> is reached when
  \<^verbatim>\<open>value\<close> is truthy, and throws a TypeError when it is no string.
\<close>

fun missingFields_loop ::
  "jsobject \<Rightarrow> property list \<Rightarrow> string list \<Rightarrow> js_exception + string list" where
  "missingFields_loop d [] missing = Inr missing"
| "missingFields_loop d (p # ps) missing =
     (if isMandatory p \<and> ptype p \<noteq> ''Checkbox'' then
        (case obj_get d (pname p) of
           Undefined \<Rightarrow> missingFields_loop d ps (missing @ [pname p])
         | Own (JStr s) \<Rightarrow>
             if s = [] \<or> js_trim s = [] then missingFields_loop d ps (missing @ [pname p])
             else missingFields_loop d ps missing
         | Own (JBool b) \<Rightarrow>
             if \<not> b then missingFields_loop d ps (missing @ [pname p])
             else Inl TypeError
         | Inherited \<Rightarrow> Inl TypeError)
      else missingFields_loop d ps missing)"

subsection \<open>Update and save\<close>

text \<open>
  \<^verbatim>\<open>updateRecord(id, { data, lastEditedTime, lastEditedBy })\<close>: the spread
  \<^verbatim>\<open>{ ...target, ...updatedFields }\<close> overwrites these three fields of the stored record.
\<close>

definition updateRecord :: "nat \<Rightarrow> jsobject \<Rightarrow> string \<Rightarrow> string \<Rightarrow> app \<Rightarrow> outcome \<times> app" where
  "updateRecord id' d t b st =
     (case find (\<lambda>r. rid r = id') (recordStore_all st) of
        None \<Rightarrow> (Alert RecordNotFound, st)
      | Some target \<Rightarrow>
          (Completed,
           recordStore_add (target\<lparr>data := d, lastEditedTime := t, lastEditedBy := b\<rparr>) st))"

text \<open>
  The click handler of \<^verbatim>\<open>#btnSaveRecord\<close>, on the form elements, \<^verbatim>\<open>Date.now()\<close> and
  what \<^verbatim>\<open>toLocaleString\<close> makes of it.
\<close>

definition btnSaveRecord :: "form_el list \<Rightarrow> int \<Rightarrow> string \<Rightarrow> app \<Rightarrow> outcome \<times> app" where
  "btnSaveRecord els now nowLocale st =
     (case activeSchema st of
        None \<Rightarrow> (Alert SelectSchemaFirst, st)
      | Some sc \<Rightarrow>
          let d = collect els in
          (case missingFields_loop d (properties sc) [] of
             Inl e \<Rightarrow> (Thrown e, st)
           | Inr missingFields \<Rightarrow>
               if missingFields \<noteq> [] then (Alert (MissingFields missingFields), st)
               else if record_editMode st \<and> editingRecordId st \<noteq> None then
                 updateRecord (the (editingRecordId st)) d nowLocale ''Admin'' st
               else
                 (Completed,
                  recordStore_add_new
                    \<lparr>rschema = sname sc, data = d, createdAt = now,
                     createdTime = nowLocale, createdBy = ''Admin'',
                     lastEditedTime = nowLocale, lastEditedBy = ''Admin''\<rparr> st)))"

subsection \<open>Relation labels\<close>

text \<open>
  \<^verbatim>\<open>rec.id == v\<close>: a number against a string or a boolean compares with ToNumber of the
  value; against \<^verbatim>\<open>undefined\<close> it is false; against a member of \<^verbatim>\<open>Object.prototype\<close>
  (an object or a function, whose primitive is a string that is no numeral) it is false.
\<close>

fun loose_eq_id :: "lookup \<Rightarrow> nat \<Rightarrow> bool" where
  "loose_eq_id Undefined n = False"
| "loose_eq_id Inherited n = False"
| "loose_eq_id (Own v) n = (to_number v = Num (int n))"

text \<open>
  The first two operands of
  \<^verbatim>\<open>data.Title || data[Object.keys(data)[0]] || ...\<close>: the value the chain stops at, if
  it stops there. (\<^verbatim>\<open>Title\<close> is no member of \<^verbatim>\<open>Object.prototype\<close>.)
\<close>

definition title_or_first :: "jsobject \<Rightarrow> jsval option" where
  "title_or_first d =
     (let first = (case d of [] \<Rightarrow> None | e # _ \<Rightarrow> if truthy (snd e) then Some (snd e) else None)
      in case map_of d ''Title'' of
           Some t \<Rightarrow> if truthy t then Some t else first
         | None \<Rightarrow> first)"

definition kayit_label :: string where
  "kayit_label = ''Kay'' @ [CHR 0xC4, CHR 0xB1] @ ''t #''"

definition silinmis_kayit :: string where
  "silinmis_kayit = ''Silinmi'' @ [CHR 0xC5, CHR 0x9F] @ '' Kay'' @ [CHR 0xC4, CHR 0xB1] @ ''t (#''"

text \<open>
  One entry of \<^verbatim>\<open>Object.entries(r.data)\<close> in \<^verbatim>\<open>renderRecordTable\<close>, with the schema of the
  row's record (if the store has it): the text of the entry.
\<close>

definition render_entry :: "stored_rec list \<Rightarrow> schema option \<Rightarrow> string \<times> jsval \<Rightarrow> string" where
  "render_entry allRecords sc e =
     (let k = fst e; v = snd e;
          prop = (case sc of None \<Rightarrow> None | Some s \<Rightarrow> find (\<lambda>p. pname p = k) (properties s))
      in
      if prop \<noteq> None \<and> ptype (the prop) = ''Relation'' \<and> truthy v then
        (case find (\<lambda>r. loose_eq_id (Own v) (rid r)) allRecords of
           Some relatedRecord \<Rightarrow>
             k @ '': '' @
               to_string (case title_or_first (data relatedRecord) of
                            Some t \<Rightarrow> t
                          | None \<Rightarrow> JStr (kayit_label @ to_string v))
         | None \<Rightarrow> k @ '': '' @ silinmis_kayit @ to_string v @ '')'')
      else k @ '': '' @ to_string v)"

text \<open>
  \<^verbatim>\<open>renderRecordTable\<close>: the records are sorted by \<^verbatim>\<open>createdAt\<close>, newest first (the
  sort is stable and in place, so the relation lookup sees the sorted array); the schema of a
  row is looked up by name among all schemas; a row is the record's id and the texts of its
  data entries.
\<close>

definition sorted_records :: "app \<Rightarrow> stored_rec list" where
  "sorted_records st = sort_key (\<lambda>r. - createdAt r) (recordStore_all st)"

definition schema_of :: "app \<Rightarrow> stored_rec \<Rightarrow> schema option" where
  "schema_of st r = find (\<lambda>s. sname s = rschema r) (schemaStore_getAll st)"

definition render_row :: "app \<Rightarrow> stored_rec \<Rightarrow> string list" where
  "render_row st r = map (render_entry (sorted_records st) (schema_of st r)) (data r)"

definition renderRecordTable :: "app \<Rightarrow> (nat \<times> string list) list" where
  "renderRecordTable st = map (\<lambda>r. (rid r, render_row st r)) (sorted_records st)"

text \<open>
  The options that \<^verbatim>\<open>buildForm\<close> adds to the select of a Relation property: one per record
  of the related schema, selected when \<^verbatim>\<open>existingData[p.name] == rec.id\<close>.
\<close>

record rel_option =
  opt_value :: string
  opt_text :: string
  opt_selected :: bool

definition relation_option :: "lookup \<Rightarrow> stored_rec \<Rightarrow> rel_option" where
  "relation_option existing r =
     \<lparr>opt_value = show_nat (rid r),
      opt_text =
        to_string (case title_or_first (data r) of
                     Some t \<Rightarrow> t
                   | None \<Rightarrow> JStr (kayit_label @ show_nat (rid r))),
      opt_selected = loose_eq_id existing (rid r)\<rparr>"

definition buildForm_relation_options ::
  "stored_rec list \<Rightarrow> property \<Rightarrow> jsobject \<Rightarrow> rel_option list" where
  "buildForm_relation_options allRecords p existingData =
     (case relatedSchema p of
        None \<Rightarrow> []
      | Some rs \<Rightarrow>
          if rs = [] then []
          else map (relation_option (obj_get existingData (pname p)))
                 (filter (\<lambda>r. rschema r = rs) allRecords))"

section \<open>Store invariant and example states\<close>

text \<open>The values of an object store are in strictly ascending key order.\<close>

definition store_inv :: "('a \<Rightarrow> 'k::linorder) \<Rightarrow> 'a list \<Rightarrow> bool" where
  "store_inv key xs = sorted_wrt (\<lambda>a b. key a < key b) xs"

text \<open>The invariant of the page: both stores are in key order, so their keys are unique.\<close>

definition page_inv :: "app \<Rightarrow> bool" where
  "page_inv st = (store_inv sname (schemas st) \<and> store_inv rid (records st))"

text \<open>The page before anything is stored: the key generator of the record store starts at 1.\<close>

definition initial_app :: app where
  "initial_app =
     \<lparr>schemas = [], records = [], keygen = 1, schemasCache = [],
      schema_editMode = False, editingSchemaName = None,
      activeSchema = None, record_editMode = False, editingRecordId = None\<rparr>"

text \<open>
  A page with two schemas and three records. Project has two Relation properties; the
  first property of Task is a Checkbox.
\<close>

definition project_schema :: schema where
  "project_schema =
     \<lparr>sname = ''Project'',
      properties =
        [\<lparr>pname = ''Title'', ptype = ''Title'', options = [], isMandatory = True,
          relatedSchema = None\<rparr>,
         \<lparr>pname = ''Owner'', ptype = ''Relation'', options = [], isMandatory = False,
          relatedSchema = Some ''Task''\<rparr>,
         \<lparr>pname = ''Lead'', ptype = ''Relation'', options = [], isMandatory = False,
          relatedSchema = Some ''Task''\<rparr>]\<rparr>"

definition task_schema :: schema where
  "task_schema =
     \<lparr>sname = ''Task'',
      properties =
        [\<lparr>pname = ''Done'', ptype = ''Checkbox'', options = [], isMandatory = False,
          relatedSchema = None\<rparr>,
         \<lparr>pname = ''Name'', ptype = ''Text'', options = [], isMandatory = True,
          relatedSchema = None\<rparr>]\<rparr>"

definition task1 :: stored_rec where
  "task1 =
     \<lparr>rschema = ''Task'', data = [(''Done'', JBool False), (''Name'', JStr ''Ship spec'')],
      createdAt = 1000, createdTime = ''t1'', createdBy = ''Admin'',
      lastEditedTime = ''t1'', lastEditedBy = ''Admin'', rid = 1\<rparr>"

definition project2 :: stored_rec where
  "project2 =
     \<lparr>rschema = ''Project'',
      data = [(''Title'', JStr ''Apollo''), (''Owner'', JStr ''1''), (''Lead'', JStr [])],
      createdAt = 2000, createdTime = ''t2'', createdBy = ''Admin'',
      lastEditedTime = ''t2'', lastEditedBy = ''Admin'', rid = 2\<rparr>"

definition project3 :: stored_rec where
  "project3 =
     \<lparr>rschema = ''Project'',
      data = [(''Title'', JStr ''Gemini''), (''Owner'', JStr ''7''), (''Lead'', JStr ''2'')],
      createdAt = 3000, createdTime = ''t3'', createdBy = ''Admin'',
      lastEditedTime = ''t3'', lastEditedBy = ''Admin'', rid = 3\<rparr>"

definition demo_app :: app where
  "demo_app =
     \<lparr>schemas = [project_schema, task_schema],
      records = [task1, project2, project3],
      keygen = 4,
      schemasCache = [project_schema, task_schema],
      schema_editMode = False, editingSchemaName = None,
      activeSchema = None, record_editMode = False, editingRecordId = None\<rparr>"

definition task_rows :: "prop_row list" where
  "task_rows =
     [\<lparr>pname_value = ''Done'', ptype_value = ''Checkbox'', poptions_value = [],
       pmandatory_checked = False, prelatedschema_value = []\<rparr>,
      \<lparr>pname_value = '' Name'', ptype_value = ''Text'', poptions_value = [],
       pmandatory_checked = True, prelatedschema_value = []\<rparr>]"

definition blank_rows :: "prop_row list" where
  "blank_rows =
     [\<lparr>pname_value = ''  '', ptype_value = ''Text'', poptions_value = [],
       pmandatory_checked = False, prelatedschema_value = []\<rparr>]"

text \<open>A form for the second record of the example page.\<close>

definition project_form :: "form_el list" where
  "project_form = [ValueEl ''Title'' ''Apollo 11'', ValueEl ''Owner'' [], ValueEl ''Lead'' ''3'']"

text \<open>
  A session on a fresh page: the page loads (the schema store is empty, and so is the
  cache), the schema Note with a mandatory Title is saved, a Note record is created, and
  its edit button is clicked.
\<close>

definition title_rows :: "prop_row list" where
  "title_rows =
     [\<lparr>pname_value = ''Title'', ptype_value = ''Title'', poptions_value = [],
       pmandatory_checked = True, prelatedschema_value = []\<rparr>]"

definition note_schema :: schema where
  "note_schema =
     \<lparr>sname = ''Note'',
      properties =
        [\<lparr>pname = ''Title'', ptype = ''Title'', options = [], isMandatory = True,
          relatedSchema = None\<rparr>]\<rparr>"

definition note1 :: stored_rec where
  "note1 =
     \<lparr>rschema = ''Note'', data = [(''Title'', JStr ''Ship spec'')],
      createdAt = 1000, createdTime = ''t1'', createdBy = ''Admin'',
      lastEditedTime = ''t1'', lastEditedBy = ''Admin'', rid = 1\<rparr>"

definition page_loaded :: app where
  "page_loaded = domContentLoaded initial_app"

definition page_with_schema :: app where
  "page_with_schema = snd (btnSaveSchema ''Note'' title_rows (openSchemaModal None page_loaded))"

definition page_with_record :: app where
  "page_with_record =
     snd (btnSaveRecord [ValueEl ''Title'' ''Ship spec''] 1000 ''t1''
            (openRecordModal note_schema page_with_schema))"

definition page_editing :: app where
  "page_editing = openRecordModalForEdit note1 page_with_record"

text \<open>
  The collected value of a property is empty after trimming: the form gave none, or a
  string that trims to the empty string.
\<close>

definition blank_value :: "lookup \<Rightarrow> bool" where
  "blank_value l =
     (case l of Undefined \<Rightarrow> True | Own (JStr s) \<Rightarrow> js_trim s = [] | Own (JBool b) \<Rightarrow> False
      | Inherited \<Rightarrow> False)"

text \<open>
  The label of a relation target in the words of the specification: the Title value of the
  target, or, absent that, its first data value, or, absent any data, a label with its id.
\<close>

definition spec_relation_label :: "stored_rec \<Rightarrow> string" where
  "spec_relation_label t =
     (case map_of (data t) ''Title'' of
        Some tv \<Rightarrow> to_string tv
      | None \<Rightarrow>
          (case data t of
             e # _ \<Rightarrow> to_string (snd e)
           | [] \<Rightarrow> kayit_label @ show_nat (rid t)))"

text \<open>The two Relation properties of the example schema Project.\<close>

definition owner_prop :: property where
  "owner_prop =
     \<lparr>pname = ''Owner'', ptype = ''Relation'', options = [], isMandatory = False,
      relatedSchema = Some ''Task''\<rparr>"

definition lead_prop :: property where
  "lead_prop =
     \<lparr>pname = ''Lead'', ptype = ''Relation'', options = [], isMandatory = False,
      relatedSchema = Some ''Task''\<rparr>"

section \<open>Lemmas about the stores\<close>

lemma store_put_mem: "v \<in> set (store_put key v xs)"
  by (induction xs) auto

lemma store_put_subset: "x \<in> set (store_put key v xs) \<Longrightarrow> x = v \<or> x \<in> set xs"
  by (induction xs) (auto split: if_splits)

lemma store_put_keeps:
  "x \<in> set xs \<Longrightarrow> key x \<noteq> key v \<Longrightarrow> x \<in> set (store_put key v xs)"
  by (induction xs) auto

lemma find_store_put: "find (\<lambda>x. key x = key v) (store_put key v xs) = Some v"
  by (induction xs) auto

lemma store_delete_set: "set (store_delete key k xs) = {x \<in> set xs. key x \<noteq> k}"
  by (auto simp: store_delete_def)

lemma store_inv_put: "store_inv key xs \<Longrightarrow> store_inv key (store_put key v xs)"
  unfolding store_inv_def
proof (induction xs)
  case Nil
  then show ?case by simp
next
  case (Cons x xs)
  then show ?case
    by (auto dest!: store_put_subset[of _ key v xs])
qed

lemma store_inv_delete: "store_inv key xs \<Longrightarrow> store_inv key (store_delete key k xs)"
  unfolding store_inv_def store_delete_def by (simp add: sorted_wrt_filter)

lemma store_inv_distinct: "store_inv key xs \<Longrightarrow> distinct (map key xs)"
  unfolding store_inv_def by (induction xs) auto

lemma renameSchema_cursor_length: "length (renameSchema_cursor old new rs) = length rs"
  by (induction rs) auto

lemma renameSchema_cursor_nth:
  "i < length rs \<Longrightarrow>
   renameSchema_cursor old new rs ! i =
     (if rschema (rs ! i) = old then (rs ! i)\<lparr>rschema := new\<rparr> else rs ! i)"
proof (induction rs arbitrary: i)
  case Nil
  then show ?case by simp
next
  case (Cons r rs)
  then show ?case by (cases i) auto
qed

lemma renameSchema_cursor_set:
  "set (renameSchema_cursor old new rs) =
     (\<lambda>r. if rschema r = old then r\<lparr>rschema := new\<rparr> else r) ` set rs"
  by (induction rs) auto

lemma deleteBySchema_cursor_filter:
  "deleteBySchema_cursor name rs = filter (\<lambda>r. rschema r \<noteq> name) rs"
  by (induction rs) auto

lemma filter_key_unique:
  "distinct (map key xs) \<Longrightarrow> x \<in> set xs \<Longrightarrow> length (filter (\<lambda>y. key y = key x) xs) = 1"
proof (induction xs)
  case Nil
  then show ?case by simp
next
  case (Cons a xs)
  show ?case
  proof (cases "key a = key x")
    case True
    with Cons.prems have "\<forall>y\<in>set xs. key y \<noteq> key x" by (auto simp: image_iff)
    then have "filter (\<lambda>y. key y = key x) xs = []" by (simp add: filter_empty_conv)
    with True show ?thesis by simp
  next
    case False
    with Cons show ?thesis by auto
  qed
qed

lemma btnSaveSchema_rename:
  assumes "btnSaveSchema schemaName rows st = (Completed, st')"
    and "schema_editMode st" and "editingSchemaName st = Some old"
    and "js_trim schemaName \<noteq> old"
  shows "st' = schemaStore_put
           \<lparr>sname = js_trim schemaName,
            properties = filter (\<lambda>p. pname p \<noteq> []) (map row_property rows)\<rparr>
           (schemaStore_delete old (recordStore_renameSchema old (js_trim schemaName) st))"
  using assms by (auto simp: btnSaveSchema_def Let_def split: if_splits)

lemma updateRecord_found:
  assumes "find (\<lambda>r. rid r = i) (records st) = Some target"
  shows "updateRecord i d t b st =
           (Completed, recordStore_add (target\<lparr>data := d, lastEditedTime := t, lastEditedBy := b\<rparr>) st)"
  using assms by (simp add: updateRecord_def recordStore_all_def)

lemma btnSaveRecord_edit:
  assumes "record_editMode st" and "editingRecordId st = Some i"
    and "btnSaveRecord els now nowLocale st = (Completed, st')"
  shows "updateRecord i (collect els) nowLocale ''Admin'' st = (Completed, st')"
  using assms
  by (auto simp: btnSaveRecord_def Let_def split: option.splits sum.splits if_splits)

lemma page_with_schema_eq:
  "page_with_schema =
     initial_app\<lparr>schemas := [note_schema]\<rparr>"
  unfolding page_with_schema_def page_loaded_def by code_simp

lemma page_with_record_eq:
  "page_with_record =
     initial_app\<lparr>schemas := [note_schema], records := [note1], keygen := 2,
       activeSchema := Some note_schema\<rparr>"
  unfolding page_with_record_def page_with_schema_eq by code_simp

lemma missingFields_loop_acc:
  "missingFields_loop d ps acc = Inr ms \<Longrightarrow> set acc \<subseteq> set ms"
proof (induction ps arbitrary: acc)
  case Nil
  then show ?case by simp
next
  case (Cons p ps)
  then show ?case
    by (fastforce split: if_splits lookup.splits jsval.splits)
qed

lemma missingFields_loop_blank:
  assumes "p \<in> set ps" and "isMandatory p" and "ptype p \<noteq> ''Checkbox''"
    and "blank_value (obj_get d (pname p))"
    and "missingFields_loop d ps acc = Inr ms"
  shows "pname p \<in> set ms"
  using assms(1,5)
proof (induction ps arbitrary: acc)
  case Nil
  then show ?case by simp
next
  case (Cons q ps)
  show ?case
  proof (cases "q = p")
    case True
    with Cons.prems(2) assms(2,3,4)
    have "missingFields_loop d ps (acc @ [pname p]) = Inr ms"
      by (auto simp: blank_value_def split: lookup.splits jsval.splits if_splits)
    from missingFields_loop_acc [OF this] show ?thesis by simp
  next
    case False
    with Cons.prems(1) have "p \<in> set ps" by simp
    moreover from Cons.prems(2) obtain acc' where "missingFields_loop d ps acc' = Inr ms"
      by (auto split: if_splits lookup.splits jsval.splits)
    ultimately show ?thesis by (rule Cons.IH)
  qed
qed

section \<open>Lemmas about numerals, trimming and lookups\<close>

lemma digit_char_cases:
  assumes "d < 10"
  shows "is_digit (digit_char d) \<and> digit_val (digit_char d) = int d"
proof -
  from assms have "d \<in> {0, 1, 2, 3, 4, 5, 6, 7, 8, 9}" by auto
  then show ?thesis
    by (auto simp: is_digit_def digit_char_def digit_val_def)
qed

lemma is_digit_digit_char: "d < 10 \<Longrightarrow> is_digit (digit_char d)"
  by (simp add: digit_char_cases)

lemma digit_val_digit_char: "d < 10 \<Longrightarrow> digit_val (digit_char d) = int d"
  by (simp add: digit_char_cases)

lemma show_nat_digits: "list_all is_digit (show_nat n) \<and> show_nat n \<noteq> []"
proof (induction n rule: show_nat.induct)
  case (1 n)
  show ?case
  proof (cases "n < 10")
    case True
    then show ?thesis by (simp add: show_nat.simps [of n] is_digit_digit_char)
  next
    case False
    with 1 show ?thesis
      by (simp add: show_nat.simps [of n] is_digit_digit_char)
  qed
qed

lemma digits_val_snoc: "digits_val (s @ [c]) = 10 * digits_val s + digit_val c"
  by (simp add: digits_val_def)

lemma digits_val_show_nat: "digits_val (show_nat n) = int n"
proof (induction n rule: show_nat.induct)
  case (1 n)
  show ?case
  proof (cases "n < 10")
    case True
    then show ?thesis
      by (simp add: show_nat.simps [of n] digits_val_def digit_val_digit_char)
  next
    case False
    with 1 have "digits_val (show_nat (n div 10)) = int (n div 10)" by simp
    with False show ?thesis
      by (simp add: show_nat.simps [of n] digits_val_snoc digit_val_digit_char zdiv_int zmod_int)
  qed
qed

lemma digit_not_ws: "is_digit c \<Longrightarrow> \<not> ascii_ws c"
  by (auto simp: is_digit_def ascii_ws_def)

lemma ws_len_start_digit: "s \<noteq> [] \<Longrightarrow> is_digit (hd s) \<Longrightarrow> ws_len_start s = 0"
  by (cases s) (auto simp: ws_len_start_def digit_not_ws is_digit_def unicode_ws3_def)

lemma last_drop_eq: "drop k s = ys \<Longrightarrow> ys \<noteq> [] \<Longrightarrow> last s = last ys"
  by (metis append_take_drop_id last_appendR)

lemma ws_len_end_digit:
  assumes "s \<noteq> []" and "is_digit (last s)"
  shows "ws_len_end s = 0"
proof -
  have a: "\<not> ascii_ws (last s)" using assms(2) by (rule digit_not_ws)
  have b: "drop (length s - 2) s \<noteq> [CHR 0xC2, CHR 0xA0]"
  proof
    assume "drop (length s - 2) s = [CHR 0xC2, CHR 0xA0]"
    then have "last s = CHR 0xA0" by (auto dest: last_drop_eq)
    with assms(2) show False by (simp add: is_digit_def)
  qed
  have c: "drop (length s - 3) s \<notin> set unicode_ws3"
  proof
    assume m: "drop (length s - 3) s \<in> set unicode_ws3"
    then have "drop (length s - 3) s \<noteq> []" by (auto simp: unicode_ws3_def)
    then have "last s = last (drop (length s - 3) s)" by (rule last_drop_eq [OF refl])
    with m have "last s \<in> last ` set unicode_ws3" by (metis imageI)
    with assms(2) show False by (auto simp: is_digit_def unicode_ws3_def)
  qed
  from assms(1) a b c show ?thesis by (simp add: ws_len_end_def)
qed

lemma js_trim_digits:
  assumes "s \<noteq> []" and "list_all is_digit s"
  shows "js_trim s = s"
proof -
  from assms have "is_digit (hd s)" "is_digit (last s)"
    by (auto simp: list_all_iff)
  with assms(1) have "ws_len_start s = 0" "ws_len_end s = 0"
    by (simp_all add: ws_len_start_digit ws_len_end_digit)
  then show ?thesis
    by (simp add: js_trim_def trim_start.simps [of s] trim_end.simps [of s])
qed

lemma str_to_number_show_nat:
  assumes "n \<le> 9007199254740992"
  shows "str_to_number (show_nat n) = Num (int n)"
proof -
  let ?s = "show_nat n"
  have d: "list_all is_digit ?s" and ne: "?s \<noteq> []" using show_nat_digits by auto
  then have t: "js_trim ?s = ?s" by (simp add: js_trim_digits)
  from d ne have "is_digit (hd ?s)" by (auto simp: list_all_iff)
  then have h: "hd ?s \<noteq> CHR ''+''" "hd ?s \<noteq> CHR ''-''" by (auto simp: is_digit_def)
  from assms have "int n \<le> 9007199254740992" by simp
  with d ne t h show ?thesis
    by (simp add: str_to_number_def Let_def digits_val_show_nat)
qed

text \<open>An integer up to \<open>2^53\<close> is a double: rounding leaves it as it is.\<close>

lemma round_half_even_integer: "round_half_even a 1 = a"
  by (simp add: round_half_even_def)

lemma round_to_number_integer:
  assumes "0 \<le> n" and "n \<le> 9007199254740992"
  shows "round_to_number n 1 = Num n"
proof (cases "n = 9007199254740992")
  case True
  then show ?thesis by (simp add: round_to_number_def)
next
  case False
  with assms show ?thesis
    by (simp add: round_to_number_def Let_def round_half_even_integer)
qed

lemma js_trim_Nil: "js_trim [] = []"
  by (simp add: js_trim_def trim_start.simps [of "[]"] trim_end.simps [of "[]"]
      ws_len_start_def ws_len_end_def)

lemma find_key:
  "distinct (map key xs) \<Longrightarrow> t \<in> set xs \<Longrightarrow> find (\<lambda>x. key x = key t) xs = Some t"
  by (induction xs) (auto simp: image_iff)

lemma sorted_records_set: "set (sorted_records st) = set (records st)"
  by (simp add: sorted_records_def recordStore_all_def)

lemma sorted_records_distinct:
  "distinct (map rid (records st)) \<Longrightarrow> distinct (map rid (sorted_records st))"
  by (simp add: sorted_records_def recordStore_all_def distinct_map)

lemma find_target:
  assumes "distinct (map rid (records st))" and "t \<in> set (records st)"
    and "to_number v = Num (int (rid t))"
  shows "find (\<lambda>r. loose_eq_id (Own v) (rid r)) (sorted_records st) = Some t"
proof -
  have key: "find (\<lambda>r. rid r = rid t) (sorted_records st) = Some t"
    using sorted_records_distinct [OF assms(1)] assms(2)
    by (intro find_key) (simp_all add: sorted_records_set)
  have eq: "loose_eq_id (Own v) (rid r) = (rid r = rid t)" for r
    using assms(3) by auto
  show ?thesis unfolding eq by (rule key)
qed

lemma find_no_target:
  assumes "\<forall>u\<in>set (records st). to_number v \<noteq> Num (int (rid u))"
  shows "find (\<lambda>r. loose_eq_id (Own v) (rid r)) (sorted_records st) = None"
  using assms by (auto simp: find_None_iff sorted_records_set)

lemma render_entry_relation:
  assumes "find (\<lambda>p. pname p = k) (properties sc) = Some p" and "ptype p = ''Relation''"
    and "truthy v"
  shows "render_entry recs (Some sc) (k, v) =
     (case find (\<lambda>r. loose_eq_id (Own v) (rid r)) recs of
        Some t \<Rightarrow>
          k @ '': '' @
            to_string (case title_or_first (data t) of
                         Some l \<Rightarrow> l
                       | None \<Rightarrow> JStr (kayit_label @ to_string v))
      | None \<Rightarrow> k @ '': '' @ silinmis_kayit @ to_string v @ '')'')"
  using assms by (simp add: render_entry_def Let_def)

lemma render_entry_falsy:
  "\<not> truthy v \<Longrightarrow> render_entry recs sc (k, v) = k @ '': '' @ to_string v"
  by (simp add: render_entry_def Let_def)

lemma title_or_first_cases:
  "(\<forall>tv. map_of d ''Title'' = Some tv \<and> truthy tv \<longrightarrow> title_or_first d = Some tv) \<and>
   (\<forall>e es. (\<forall>tv. map_of d ''Title'' = Some tv \<longrightarrow> \<not> truthy tv) \<and> d = e # es \<and> truthy (snd e) \<longrightarrow>
      title_or_first d = Some (snd e)) \<and>
   ((\<forall>tv. map_of d ''Title'' = Some tv \<longrightarrow> \<not> truthy tv) \<and>
    (\<forall>e es. d = e # es \<longrightarrow> \<not> truthy (snd e)) \<longrightarrow> title_or_first d = None)"
  by (auto simp: title_or_first_def Let_def split: option.splits list.splits)

section \<open>The handlers keep the stores in key order\<close>

lemma store_inv_renameSchema:
  "store_inv rid rs \<Longrightarrow> store_inv rid (renameSchema_cursor old new rs)"
  unfolding store_inv_def
  by (induction rs) (auto simp: renameSchema_cursor_set)

lemma store_inv_deleteBySchema:
  "store_inv rid rs \<Longrightarrow> store_inv rid (deleteBySchema_cursor name rs)"
  by (simp add: store_inv_def deleteBySchema_cursor_filter sorted_wrt_filter)

lemma page_inv_initial: "page_inv initial_app"
  by (simp add: page_inv_def initial_app_def store_inv_def)

lemma page_inv_schemaStore_put: "page_inv st \<Longrightarrow> page_inv (schemaStore_put s st)"
  by (simp add: page_inv_def schemaStore_put_def store_inv_put)

lemma page_inv_schemaStore_delete: "page_inv st \<Longrightarrow> page_inv (schemaStore_delete n st)"
  by (simp add: page_inv_def schemaStore_delete_def store_inv_delete)

lemma page_inv_renameSchema: "page_inv st \<Longrightarrow> page_inv (recordStore_renameSchema old new st)"
  by (simp add: page_inv_def recordStore_renameSchema_def store_inv_renameSchema)

lemma page_inv_deleteBySchema: "page_inv st \<Longrightarrow> page_inv (recordStore_deleteBySchema n st)"
  by (simp add: page_inv_def recordStore_deleteBySchema_def store_inv_deleteBySchema)

lemma page_inv_recordStore_add: "page_inv st \<Longrightarrow> page_inv (recordStore_add r st)"
  by (simp add: page_inv_def recordStore_add_def store_inv_put)

lemma page_inv_recordStore_add_new: "page_inv st \<Longrightarrow> page_inv (recordStore_add_new f st)"
  by (simp add: page_inv_def recordStore_add_new_def store_inv_put)

lemma page_inv_btnSaveSchema:
  "page_inv st \<Longrightarrow> page_inv (snd (btnSaveSchema schemaName rows st))"
  by (auto simp: btnSaveSchema_def Let_def page_inv_schemaStore_put page_inv_schemaStore_delete
      page_inv_renameSchema split: option.splits)

lemma page_inv_deleteSchemaFlow:
  "page_inv st \<Longrightarrow> page_inv (deleteSchemaFlow n c w st)"
  by (simp add: deleteSchemaFlow_def Let_def page_inv_schemaStore_delete page_inv_deleteBySchema)

lemma page_inv_import_item: "page_inv st \<Longrightarrow> page_inv (import_item sc st)"
  by (induction sc st rule: import_item.induct) (simp_all add: page_inv_schemaStore_put)

lemma page_inv_import_items:
  "page_inv st \<Longrightarrow> page_inv (foldl (\<lambda>s sc. import_item sc s) st items)"
  by (induction items arbitrary: st) (simp_all add: page_inv_import_item)

lemma page_inv_importSchemas: "page_inv st \<Longrightarrow> page_inv (snd (importSchemas f st))"
  by (cases f) (simp_all add: importSchemas_def page_inv_import_items)

lemma page_inv_updateRecord: "page_inv st \<Longrightarrow> page_inv (snd (updateRecord i d t b st))"
  by (simp add: updateRecord_def page_inv_recordStore_add split: option.splits)

lemma page_inv_btnSaveRecord:
  "page_inv st \<Longrightarrow> page_inv (snd (btnSaveRecord els now nowLocale st))"
  by (simp add: btnSaveRecord_def Let_def page_inv_updateRecord page_inv_recordStore_add_new
      split: option.splits sum.splits)

lemma page_inv_modals:
  "page_inv (openSchemaModal sc st) = page_inv st"
  "page_inv (openRecordModal s st) = page_inv st"
  "page_inv (openRecordModalForEdit r st) = page_inv st"
  "page_inv (domContentLoaded st) = page_inv st"
  by (simp_all add: page_inv_def openSchemaModal_def openRecordModal_def
      openRecordModalForEdit_def domContentLoaded_def)

lemma page_inv_distinct:
  "page_inv st \<Longrightarrow> distinct (map sname (schemas st)) \<and> distinct (map rid (records st))"
  by (simp add: page_inv_def store_inv_distinct)

lemma page_inv_demo: "page_inv demo_app"
  by (simp add: page_inv_def store_inv_def demo_app_def project_schema_def task_schema_def
      task1_def project2_def project3_def)

text \<open>The rows of the record table are the entries rendered one by one.\<close>

lemma renderRecordTable_rows:
  "set (renderRecordTable st) =
     (\<lambda>r. (rid r, map (render_entry (sorted_records st) (schema_of st r)) (data r))) `
       set (records st)"
  by (simp add: renderRecordTable_def render_row_def sorted_records_set)

section \<open>Claims\<close>

text \<open>
  C9. \<^verbatim>\<open>recordStore.renameSchema(oldName, newName)\<close> keeps the number of records; a
  record whose schema differs from \<open>oldName\<close> is left as it is; a record whose schema
  is \<open>oldName\<close> changes in its schema field only: id, data, createdAt and the four
  provenance fields are the old ones.
\<close>

theorem renameSchema_frame:
  "length (records (recordStore_renameSchema oldName newName st)) = length (records st) \<and>
   (\<forall>i < length (records st).
      let r = records st ! i;
          r' = records (recordStore_renameSchema oldName newName st) ! i
      in (rschema r \<noteq> oldName \<longrightarrow> r' = r) \<and>
         (rschema r = oldName \<longrightarrow>
            r' = r\<lparr>rschema := newName\<rparr> \<and> rid r' = rid r \<and> data r' = data r \<and>
            createdAt r' = createdAt r \<and> createdTime r' = createdTime r \<and>
            createdBy r' = createdBy r \<and> lastEditedTime r' = lastEditedTime r \<and>
            lastEditedBy r' = lastEditedBy r))"
  by (simp add: recordStore_renameSchema_def renameSchema_cursor_length
      renameSchema_cursor_nth Let_def)

theorem renameSchema_frame_witness:
  "length (records (recordStore_renameSchema ''Task'' ''Todo'' demo_app)) = 3 \<and>
   records (recordStore_renameSchema ''Task'' ''Todo'' demo_app) ! 0 =
     task1\<lparr>rschema := ''Todo''\<rparr> \<and>
   records (recordStore_renameSchema ''Task'' ''Todo'' demo_app) ! 1 = project2"
proof -
  have r0: "records demo_app ! 0 = task1" and r1: "records demo_app ! 1 = project2"
    and len: "length (records demo_app) = 3"
    by (simp_all add: demo_app_def)
  have s0: "rschema task1 = ''Task''" and s1: "rschema project2 \<noteq> ''Task''"
    by (simp_all add: task1_def project2_def)
  from renameSchema_frame [of "''Task''" "''Todo''" demo_app]
  show ?thesis
    using r0 r1 len s0 s1 by (auto simp: Let_def)
qed

text \<open>
  C7. \<^verbatim>\<open>updateRecord\<close> with an id that no stored record has stops at the alert that the
  record was not found, and the page, the record table included, is what it was.
\<close>

theorem updateRecord_absent:
  assumes "id' \<notin> rid ` set (records st)"
  shows "updateRecord id' d t b st = (Alert RecordNotFound, st)"
proof -
  have "find (\<lambda>r. rid r = id') (records st) = None"
    using assms by (auto simp: find_None_iff)
  then show ?thesis by (simp add: updateRecord_def recordStore_all_def)
qed

theorem updateRecord_absent_witness:
  "updateRecord 9 [(''Title'', JStr ''x'')] ''t9'' ''Admin'' demo_app =
     (Alert RecordNotFound, demo_app)"
proof -
  have "(9::nat) \<notin> rid ` set (records demo_app)"
    by (simp add: demo_app_def task1_def project2_def project3_def)
  then show ?thesis by (rule updateRecord_absent)
qed

text \<open>
  C5. \<^verbatim>\<open>deleteSchemaFlow\<close>, once confirmed: when the records are to be deleted too, no
  schema and no record of that name is left; when they are not, no schema of that name is
  left and the record table is what it was.
\<close>

theorem deleteSchemaFlow_scope:
  "(let st' = deleteSchemaFlow name True True st in
      (\<forall>s\<in>set (schemas st'). sname s \<noteq> name) \<and> (\<forall>r\<in>set (records st'). rschema r \<noteq> name)) \<and>
   (let st' = deleteSchemaFlow name True False st in
      (\<forall>s\<in>set (schemas st'). sname s \<noteq> name) \<and> records st' = records st)"
  by (simp add: deleteSchemaFlow_def schemaStore_delete_def recordStore_deleteBySchema_def
      store_delete_set deleteBySchema_cursor_filter Let_def)

theorem deleteSchemaFlow_scope_witness:
  "schemas (deleteSchemaFlow ''Project'' True True demo_app) = [task_schema] \<and>
   records (deleteSchemaFlow ''Project'' True True demo_app) = [task1] \<and>
   schemas (deleteSchemaFlow ''Project'' True False demo_app) = [task_schema] \<and>
   records (deleteSchemaFlow ''Project'' True False demo_app) = [task1, project2, project3]"
proof -
  have "schemas (deleteSchemaFlow ''Project'' True True demo_app) = [task_schema]"
    "records (deleteSchemaFlow ''Project'' True True demo_app) = [task1]"
    "schemas (deleteSchemaFlow ''Project'' True False demo_app) = [task_schema]"
    by (simp_all add: deleteSchemaFlow_def schemaStore_delete_def recordStore_deleteBySchema_def
        store_delete_def demo_app_def project_schema_def task_schema_def task1_def project2_def
        project3_def Let_def)
  moreover have "records demo_app = [task1, project2, project3]" by (simp add: demo_app_def)
  ultimately show ?thesis
    using deleteSchemaFlow_scope [of "''Project''" demo_app] by (simp add: Let_def)
qed

text \<open>
  C1. A schema save in edit mode that ends without an alert and has another name
  (\<open>new\<close>, the trimmed input) than the schema being edited (\<open>old\<close>): afterwards no record
  has the schema \<open>old\<close>, every record that had it is stored with the schema \<open>new\<close> and
  is otherwise what it was, the schema table has an entry named \<open>new\<close> and none named
  \<open>old\<close>.
\<close>

theorem rename_cascade:
  assumes "btnSaveSchema schemaName rows st = (Completed, st')"
    and "schema_editMode st" and "editingSchemaName st = Some old"
    and "js_trim schemaName = new" and "new \<noteq> old"
  shows "(\<forall>r\<in>set (records st'). rschema r \<noteq> old) \<and>
         (\<forall>r\<in>set (records st). rschema r = old \<longrightarrow> r\<lparr>rschema := new\<rparr> \<in> set (records st')) \<and>
         (\<exists>s\<in>set (schemas st'). sname s = new) \<and>
         (\<forall>s\<in>set (schemas st'). sname s \<noteq> old)"
proof -
  let ?props = "filter (\<lambda>p. pname p \<noteq> []) (map row_property rows)"
  let ?sc = "\<lparr>sname = new, properties = ?props\<rparr>"
  have st': "st' = schemaStore_put ?sc (schemaStore_delete old (recordStore_renameSchema old new st))"
    using btnSaveSchema_rename [OF assms(1-3)] assms(4,5) by simp
  have recs: "records st' = renameSchema_cursor old new (records st)"
    by (simp add: st' schemaStore_put_def schemaStore_delete_def recordStore_renameSchema_def)
  have scs: "schemas st' = store_put sname ?sc (store_delete sname old (schemas st))"
    by (simp add: st' schemaStore_put_def schemaStore_delete_def recordStore_renameSchema_def)
  have a: "\<forall>r\<in>set (records st'). rschema r \<noteq> old"
    using \<open>new \<noteq> old\<close> by (auto simp: recs renameSchema_cursor_set)
  have b: "\<forall>r\<in>set (records st). rschema r = old \<longrightarrow> r\<lparr>rschema := new\<rparr> \<in> set (records st')"
    by (auto simp: recs renameSchema_cursor_set image_iff intro!: bexI)
  have c: "\<exists>s\<in>set (schemas st'). sname s = new"
    unfolding scs using store_put_mem [of ?sc sname] by (intro bexI [of _ ?sc]) auto
  have d: "\<forall>s\<in>set (schemas st'). sname s \<noteq> old"
  proof
    fix s assume "s \<in> set (schemas st')"
    then have "s = ?sc \<or> s \<in> set (store_delete sname old (schemas st))"
      unfolding scs by (rule store_put_subset)
    then show "sname s \<noteq> old"
      using \<open>new \<noteq> old\<close> by (auto simp: store_delete_set)
  qed
  from a b c d show ?thesis by blast
qed

theorem rename_cascade_witness:
  "fst (btnSaveSchema '' Todo '' task_rows (openSchemaModal (Some task_schema) demo_app)) = Completed \<and>
   task1\<lparr>rschema := ''Todo''\<rparr> \<in>
     set (records (snd (btnSaveSchema '' Todo '' task_rows (openSchemaModal (Some task_schema) demo_app)))) \<and>
   (\<exists>s\<in>set (schemas (snd (btnSaveSchema '' Todo '' task_rows (openSchemaModal (Some task_schema) demo_app)))).
      sname s = ''Todo'')"
proof -
  let ?st = "openSchemaModal (Some task_schema) demo_app"
  let ?res = "btnSaveSchema '' Todo '' task_rows ?st"
  have fst: "fst ?res = Completed" by code_simp
  then have h1: "?res = (Completed, snd ?res)" by (metis prod.collapse)
  have h2: "schema_editMode ?st" by (simp add: openSchemaModal_def)
  have h3: "editingSchemaName ?st = Some ''Task''"
    by (simp add: openSchemaModal_def task_schema_def)
  have h4: "js_trim '' Todo '' = ''Todo''" by code_simp
  have h5: "''Todo'' \<noteq> ''Task''" by simp
  have mem: "task1 \<in> set (records ?st)" by (simp add: openSchemaModal_def demo_app_def)
  have sch: "rschema task1 = ''Task''" by (simp add: task1_def)
  from rename_cascade [OF h1 h2 h3 h4 h5] mem sch fst show ?thesis by blast
qed

text \<open>
  C6. Saving a schema outside edit mode under the (trimmed) name of a stored schema stops
  at an alert with the page unchanged, so the schema table still holds exactly one schema
  of that name.
\<close>

theorem create_duplicate_rejected:
  assumes "\<not> schema_editMode st"
    and "\<exists>s\<in>set (schemas st). sname s = js_trim schemaName"
    and "store_inv sname (schemas st)"
  shows "(\<exists>a \<in> {SchemaNameRequired, NoProperties, NameTaken}.
            btnSaveSchema schemaName rows st = (Alert a, st)) \<and>
         length (filter (\<lambda>s. sname s = js_trim schemaName)
                   (schemas (snd (btnSaveSchema schemaName rows st)))) = 1"
proof -
  from assms(1,2) have taken:
    "list_ex (\<lambda>s. sname s = js_trim schemaName \<and>
        (\<not> schema_editMode st \<or> Some (sname s) \<noteq> editingSchemaName st)) (schemas st)"
    by (auto simp: list_ex_iff)
  then have res: "\<exists>a \<in> {SchemaNameRequired, NoProperties, NameTaken}.
      btnSaveSchema schemaName rows st = (Alert a, st)"
    by (simp add: btnSaveSchema_def Let_def schemaStore_getAll_def)
  then have same: "schemas (snd (btnSaveSchema schemaName rows st)) = schemas st"
    by auto
  from assms(2) obtain s where s: "s \<in> set (schemas st)" "sname s = js_trim schemaName"
    by auto
  have "length (filter (\<lambda>y. sname y = sname s) (schemas st)) = 1"
    using store_inv_distinct [OF assms(3)] s(1) by (rule filter_key_unique)
  with s(2) same res show ?thesis by simp
qed

theorem create_duplicate_rejected_witness:
  "btnSaveSchema '' Task'' task_rows (openSchemaModal None demo_app) =
     (Alert NameTaken, openSchemaModal None demo_app) \<and>
   length (filter (\<lambda>s. sname s = ''Task'')
             (schemas (snd (btnSaveSchema '' Task'' task_rows (openSchemaModal None demo_app))))) = 1"
proof -
  let ?st = "openSchemaModal None demo_app"
  have trim: "js_trim '' Task'' = ''Task''" by code_simp
  have h1: "\<not> schema_editMode ?st" by (simp add: openSchemaModal_def)
  have h2: "\<exists>s\<in>set (schemas ?st). sname s = js_trim '' Task''"
    unfolding trim by (simp add: openSchemaModal_def demo_app_def task_schema_def)
  have h3: "store_inv sname (schemas ?st)"
    by (simp add: store_inv_def openSchemaModal_def demo_app_def task_schema_def
        project_schema_def)
  have out: "fst (btnSaveSchema '' Task'' task_rows ?st) = Alert NameTaken" by code_simp
  from create_duplicate_rejected [OF h1 h2 h3, of task_rows] out trim
  show ?thesis by auto
qed

text \<open>
  C8. When no property row is left after the rows with an empty trimmed name are dropped,
  the schema save stops at an alert and writes nothing; a save that goes through stores
  the schema with its non-empty property list. The store itself does not require it:
  \<^verbatim>\<open>importSchemas\<close> puts a schema whose property list is empty.
\<close>

theorem schema_save_properties_nonempty:
  "(filter (\<lambda>p. pname p \<noteq> []) (map row_property rows) = [] \<longrightarrow>
      (\<exists>a\<in>{SchemaNameRequired, NoProperties}. btnSaveSchema schemaName rows st = (Alert a, st))) \<and>
   (btnSaveSchema schemaName rows st = (Completed, st') \<longrightarrow>
      (\<exists>s\<in>set (schemas st').
         sname s = js_trim schemaName \<and>
         properties s = filter (\<lambda>p. pname p \<noteq> []) (map row_property rows) \<and>
         properties s \<noteq> [])) \<and>
   schemas (snd (importSchemas (ItemArray [SchemaObject (Some ''Empty'') (Some [])]) initial_app)) =
     [\<lparr>sname = ''Empty'', properties = []\<rparr>]"
proof (intro conjI impI)
  assume "filter (\<lambda>p. pname p \<noteq> []) (map row_property rows) = []"
  then show "\<exists>a\<in>{SchemaNameRequired, NoProperties}. btnSaveSchema schemaName rows st = (Alert a, st)"
    by (simp add: btnSaveSchema_def Let_def)
next
  let ?props = "filter (\<lambda>p. pname p \<noteq> []) (map row_property rows)"
  let ?sc = "\<lparr>sname = js_trim schemaName, properties = ?props\<rparr>"
  assume ok: "btnSaveSchema schemaName rows st = (Completed, st')"
  then have ne: "?props \<noteq> []"
    by (auto simp: btnSaveSchema_def Let_def split: if_splits)
  from ok have "\<exists>st0. st' = schemaStore_put ?sc st0"
    by (auto simp: btnSaveSchema_def Let_def split: if_splits option.splits)
  then obtain st0 where "st' = schemaStore_put ?sc st0" ..
  then have "?sc \<in> set (schemas st')"
    by (simp add: schemaStore_put_def store_put_mem)
  with ne show "\<exists>s\<in>set (schemas st').
         sname s = js_trim schemaName \<and> properties s = ?props \<and> properties s \<noteq> []"
    by (intro bexI [of _ ?sc]) auto
next
  show "schemas (snd (importSchemas (ItemArray [SchemaObject (Some ''Empty'') (Some [])]) initial_app)) =
     [\<lparr>sname = ''Empty'', properties = []\<rparr>]"
    by (simp add: importSchemas_def schemaStore_put_def initial_app_def)
qed

theorem schema_save_properties_nonempty_witness:
  "btnSaveSchema ''Note'' blank_rows (openSchemaModal None demo_app) =
     (Alert NoProperties, openSchemaModal None demo_app) \<and>
   fst (btnSaveSchema ''Note'' task_rows (openSchemaModal None demo_app)) = Completed \<and>
   (\<exists>s\<in>set (schemas (snd (btnSaveSchema ''Note'' task_rows (openSchemaModal None demo_app)))).
      sname s = ''Note'' \<and> properties s \<noteq> [])"
proof -
  let ?st = "openSchemaModal None demo_app"
  have e: "filter (\<lambda>p. pname p \<noteq> []) (map row_property blank_rows) = []" by code_simp
  have o1: "fst (btnSaveSchema ''Note'' blank_rows ?st) = Alert NoProperties" by code_simp
  have o2: "fst (btnSaveSchema ''Note'' task_rows ?st) = Completed" by code_simp
  then have c: "btnSaveSchema ''Note'' task_rows ?st =
      (Completed, snd (btnSaveSchema ''Note'' task_rows ?st))"
    by (metis prod.collapse)
  have t: "js_trim ''Note'' = ''Note''" by code_simp
  from schema_save_properties_nonempty [of blank_rows "''Note''" ?st] e
  have "\<exists>a\<in>{SchemaNameRequired, NoProperties}.
      btnSaveSchema ''Note'' blank_rows ?st = (Alert a, ?st)" by blast
  then obtain a0 where eq: "btnSaveSchema ''Note'' blank_rows ?st = (Alert a0, ?st)" by blast
  with o1 have "a0 = NoProperties" by simp
  with eq have a: "btnSaveSchema ''Note'' blank_rows ?st = (Alert NoProperties, ?st)" by simp
  from schema_save_properties_nonempty
    [of task_rows "''Note''" ?st "snd (btnSaveSchema ''Note'' task_rows ?st)"] c t
  have b: "\<exists>s\<in>set (schemas (snd (btnSaveSchema ''Note'' task_rows ?st))).
      sname s = ''Note'' \<and> properties s \<noteq> []" by auto
  from a o2 b show ?thesis by simp
qed

text \<open>
  C4. An edit save that goes through, for a record that is in the store: the stored record
  of that id is afterwards the old one with \<^verbatim>\<open>data\<close> replaced by the collected object,
  \<^verbatim>\<open>lastEditedTime\<close> set to the current time and \<^verbatim>\<open>lastEditedBy\<close> to Admin; id, schema,
  createdAt, createdTime and createdBy are the old ones.
\<close>

theorem edit_save_replaces_data:
  assumes "record_editMode st" and "editingRecordId st = Some i"
    and "find (\<lambda>r. rid r = i) (records st) = Some target"
    and "btnSaveRecord els now nowLocale st = (Completed, st')"
  shows "\<exists>r'. find (\<lambda>r. rid r = i) (records st') = Some r' \<and>
           r' = target\<lparr>data := collect els, lastEditedTime := nowLocale, lastEditedBy := ''Admin''\<rparr> \<and>
           data r' = collect els \<and>
           lastEditedTime r' = nowLocale \<and> lastEditedBy r' = ''Admin'' \<and>
           rid r' = i \<and> rid r' = rid target \<and> rschema r' = rschema target \<and>
           createdAt r' = createdAt target \<and> createdTime r' = createdTime target \<and>
           createdBy r' = createdBy target"
proof -
  let ?new = "target\<lparr>data := collect els, lastEditedTime := nowLocale, lastEditedBy := ''Admin''\<rparr>"
  from assms(3) have i: "rid target = i" by (auto simp: find_Some_iff)
  from btnSaveRecord_edit [OF assms(1,2,4)] updateRecord_found [OF assms(3)]
  have "st' = recordStore_add ?new st" by simp
  then have "records st' = store_put rid ?new (records st)"
    by (simp add: recordStore_add_def)
  moreover have "find (\<lambda>r. rid r = rid ?new) (store_put rid ?new (records st)) = Some ?new"
    by (rule find_store_put)
  ultimately have "find (\<lambda>r. rid r = i) (records st') = Some ?new"
    using i by simp
  with i show ?thesis by simp
qed

theorem edit_save_replaces_data_witness:
  "fst (btnSaveRecord project_form 5000 ''t5'' (openRecordModalForEdit project2 demo_app)) = Completed \<and>
   find (\<lambda>r. rid r = 2)
     (records (snd (btnSaveRecord project_form 5000 ''t5'' (openRecordModalForEdit project2 demo_app)))) =
     Some (project2\<lparr>data := [(''Title'', JStr ''Apollo 11''), (''Owner'', JStr []), (''Lead'', JStr ''3'')],
             lastEditedTime := ''t5'', lastEditedBy := ''Admin''\<rparr>)"
proof -
  let ?st = "openRecordModalForEdit project2 demo_app"
  let ?res = "btnSaveRecord project_form 5000 ''t5'' ?st"
  have o: "fst ?res = Completed" by code_simp
  then have h4: "?res = (Completed, snd ?res)" by (metis prod.collapse)
  have h1: "record_editMode ?st" by (simp add: openRecordModalForEdit_def)
  have h2: "editingRecordId ?st = Some 2"
    by (simp add: openRecordModalForEdit_def project2_def)
  have h3: "find (\<lambda>r. rid r = 2) (records ?st) = Some project2"
    by (simp add: openRecordModalForEdit_def demo_app_def task1_def project2_def)
  have c: "collect project_form =
      [(''Title'', JStr ''Apollo 11''), (''Owner'', JStr []), (''Lead'', JStr ''3'')]"
    by code_simp
  from edit_save_replaces_data [OF h1 h2 h3 h4] o c show ?thesis by simp
qed

text \<open>
  C2. On the fresh page the cache has no schema Note, so the edit form of the Note record is
  built for a schema without properties: it has no field, the loop over the mandatory
  properties checks nothing, and the save replaces the record's data by the empty object
  although Title is mandatory in the stored schema. The form opened for a new record of the
  same schema stops at the alert.
\<close>

theorem stale_cache_edit_skips_validation:
  "schemas page_editing = [note_schema] \<and>
   records page_editing = [note1] \<and>
   schemasCache page_editing = [] \<and>
   activeSchema page_editing = Some \<lparr>sname = ''Note'', properties = []\<rparr> \<and>
   form_of \<lparr>sname = ''Note'', properties = []\<rparr> [] \<and>
   btnSaveRecord [] 2000 ''t2'' page_editing =
     (Completed, page_editing\<lparr>records := [note1\<lparr>data := [], lastEditedTime := ''t2''\<rparr>]\<rparr>) \<and>
   btnSaveRecord [ValueEl ''Title'' '' ''] 2000 ''t2'' (openRecordModal note_schema page_with_record) =
     (Alert (MissingFields [''Title'']), openRecordModal note_schema page_with_record)"
  unfolding page_editing_def page_with_record_eq by code_simp

theorem stale_cache_edit_skips_validation_witness:
  "map data (records (snd (btnSaveRecord [] 2000 ''t2'' page_editing))) = [[]]"
  using stale_cache_edit_skips_validation by simp

text \<open>
  Against the schema the form was built for, the check does what C2 says: a mandatory
  property that is no Checkbox and whose collected value is blank stops the save at the
  alert that lists it, unless the loop throws on another property first; either way the
  page is unchanged.
\<close>

theorem mandatory_blank_rejected:
  assumes "activeSchema st = Some sc" and "p \<in> set (properties sc)"
    and "isMandatory p" and "ptype p \<noteq> ''Checkbox''"
    and "blank_value (obj_get (collect els) (pname p))"
  shows "(\<exists>ms. btnSaveRecord els now nowLocale st = (Alert (MissingFields ms), st) \<and>
               pname p \<in> set ms) \<or>
         btnSaveRecord els now nowLocale st = (Thrown TypeError, st)"
proof (cases "missingFields_loop (collect els) (properties sc) []")
  case (Inl e)
  have "e = TypeError"
  proof -
    have "\<And>acc. missingFields_loop (collect els) ps acc = Inl e \<Longrightarrow> e = TypeError" for ps
      by (induction ps) (auto split: if_splits lookup.splits jsval.splits)
    with Inl show ?thesis by blast
  qed
  with Inl assms(1) show ?thesis by (simp add: btnSaveRecord_def Let_def)
next
  case (Inr ms)
  from missingFields_loop_blank [OF assms(2-5) Inr] have "pname p \<in> set ms" .
  moreover then have "ms \<noteq> []" by auto
  ultimately show ?thesis using Inr assms(1) by (simp add: btnSaveRecord_def Let_def)
qed

theorem mandatory_blank_rejected_witness:
  "btnSaveRecord [CheckboxEl ''Done'' True, ValueEl ''Name'' ''  '']
      7000 ''t7'' (openRecordModal task_schema demo_app) =
     (Alert (MissingFields [''Name'']), openRecordModal task_schema demo_app)"
proof -
  let ?st = "openRecordModal task_schema demo_app"
  let ?els = "[CheckboxEl ''Done'' True, ValueEl ''Name'' ''  '']"
  let ?p = "\<lparr>pname = ''Name'', ptype = ''Text'', options = [], isMandatory = True,
          relatedSchema = None\<rparr>"
  have h1: "activeSchema ?st = Some task_schema" by (simp add: openRecordModal_def)
  have h2: "?p \<in> set (properties task_schema)" by (simp add: task_schema_def)
  have h3: "isMandatory ?p" and h4: "ptype ?p \<noteq> ''Checkbox''" by simp_all
  have h5: "blank_value (obj_get (collect ?els) (pname ?p))" by code_simp
  have o: "fst (btnSaveRecord ?els 7000 ''t7'' ?st) = Alert (MissingFields [''Name''])"
    by code_simp
  from mandatory_blank_rejected [OF h1 h2 h3 h4 h5, of 7000 "''t7''"] o
  show ?thesis by auto
qed

text \<open>
  C3 (amended). In a row whose record has its schema in the store, take a data entry whose
  property \<open>k\<close> has type Relation. If its value \<open>v\<close> is truthy and \<^verbatim>\<open>t.id == v\<close> holds for
  the stored record \<open>t\<close>, the text is \<open>k: \<close> followed by the Title value of \<open>t\<close> if that is
  truthy, else by the first data value of \<open>t\<close> if that is truthy, else by the fallback label
  \<open>kayit_label\<close> and the stored value. If \<open>v\<close> is truthy and equals the id of no stored
  record, the text is \<open>k: \<close> followed by the deleted-record placeholder \<open>silinmis_kayit\<close>
  with the stored value in it. If the value is falsy (the empty string, or false), the text is
  \<open>k: \<close> followed by the value, with no lookup. The renderer is total: it returns a text
  for every value.
\<close>

theorem relation_label_resolution:
  assumes "distinct (map rid (records st))"
    and "schema_of st r = Some sc"
    and "find (\<lambda>p. pname p = k) (properties sc) = Some p" and "ptype p = ''Relation''"
  shows
    "(truthy v \<and> t \<in> set (records st) \<and> loose_eq_id (Own v) (rid t) \<longrightarrow>
        (map_of (data t) ''Title'' = Some tv \<and> truthy tv \<longrightarrow>
           render_entry (sorted_records st) (schema_of st r) (k, v) =
             k @ '': '' @ to_string tv) \<and>
        ((\<forall>x. map_of (data t) ''Title'' = Some x \<longrightarrow> \<not> truthy x) \<and>
         data t = e # es \<and> truthy (snd e) \<longrightarrow>
           render_entry (sorted_records st) (schema_of st r) (k, v) =
             k @ '': '' @ to_string (snd e)) \<and>
        ((\<forall>x. map_of (data t) ''Title'' = Some x \<longrightarrow> \<not> truthy x) \<and>
         (\<forall>y ys. data t = y # ys \<longrightarrow> \<not> truthy (snd y)) \<longrightarrow>
           render_entry (sorted_records st) (schema_of st r) (k, v) =
             k @ '': '' @ kayit_label @ to_string v)) \<and>
     (truthy v \<and> (\<forall>u\<in>set (records st). \<not> loose_eq_id (Own v) (rid u)) \<longrightarrow>
        render_entry (sorted_records st) (schema_of st r) (k, v) =
          k @ '': '' @ silinmis_kayit @ to_string v @ '')'') \<and>
     (\<not> truthy w \<longrightarrow>
        render_entry (sorted_records st) (schema_of st r) (k, w) = k @ '': '' @ to_string w)"
proof (intro conjI impI)
  assume a: "truthy v \<and> t \<in> set (records st) \<and> loose_eq_id (Own v) (rid t)"
  then have f: "find (\<lambda>r. loose_eq_id (Own v) (rid r)) (sorted_records st) = Some t"
    using find_target [OF assms(1), of t v] by simp
  from a have tr: "truthy v" by simp
  have r: "render_entry (sorted_records st) (schema_of st r) (k, v) =
      k @ '': '' @
        to_string (case title_or_first (data t) of
                     Some l \<Rightarrow> l | None \<Rightarrow> JStr (kayit_label @ to_string v))"
    unfolding assms(2) render_entry_relation [OF assms(3,4) tr] f by simp
  {
    assume "map_of (data t) ''Title'' = Some tv \<and> truthy tv"
    then have "title_or_first (data t) = Some tv"
      using title_or_first_cases [of "data t"] by blast
    then show "render_entry (sorted_records st) (schema_of st r) (k, v) =
        k @ '': '' @ to_string tv"
      by (simp add: r)
  }
  {
    assume "(\<forall>x. map_of (data t) ''Title'' = Some x \<longrightarrow> \<not> truthy x) \<and>
         data t = e # es \<and> truthy (snd e)"
    then have "title_or_first (data t) = Some (snd e)"
      using title_or_first_cases [of "data t"] by blast
    then show "render_entry (sorted_records st) (schema_of st r) (k, v) =
        k @ '': '' @ to_string (snd e)"
      by (simp add: r)
  }
  {
    assume "(\<forall>x. map_of (data t) ''Title'' = Some x \<longrightarrow> \<not> truthy x) \<and>
         (\<forall>y ys. data t = y # ys \<longrightarrow> \<not> truthy (snd y))"
    then have "title_or_first (data t) = None"
      using title_or_first_cases [of "data t"] by blast
    then show "render_entry (sorted_records st) (schema_of st r) (k, v) =
        k @ '': '' @ kayit_label @ to_string v"
      by (simp add: r)
  }
next
  assume a: "truthy v \<and> (\<forall>u\<in>set (records st). \<not> loose_eq_id (Own v) (rid u))"
  then have "find (\<lambda>r. loose_eq_id (Own v) (rid r)) (sorted_records st) = None"
    using find_no_target [of st v] by simp
  moreover from a have "truthy v" by simp
  ultimately show "render_entry (sorted_records st) (schema_of st r) (k, v) =
      k @ '': '' @ silinmis_kayit @ to_string v @ '')''"
    unfolding assms(2) by (simp add: render_entry_relation [OF assms(3,4)])
next
  assume "\<not> truthy w"
  then show "render_entry (sorted_records st) (schema_of st r) (k, w) = k @ '': '' @ to_string w"
    by (rule render_entry_falsy)
qed

theorem relation_label_resolution_witness:
  "render_entry (sorted_records demo_app) (schema_of demo_app project3) (''Lead'', JStr ''2'') =
     ''Lead: Apollo'' \<and>
   render_entry (sorted_records demo_app) (schema_of demo_app project3) (''Owner'', JStr ''7'') =
     ''Owner: '' @ silinmis_kayit @ ''7)'' \<and>
   render_entry (sorted_records demo_app) (schema_of demo_app project3)
     (''Owner'', JStr ''Important'') =
     ''Owner: '' @ silinmis_kayit @ ''Important)'' \<and>
   render_entry (sorted_records demo_app) (schema_of demo_app project3) (''Owner'', JStr ''1.0'') =
     ''Owner: '' @ kayit_label @ ''1.0'' \<and>
   render_entry (sorted_records demo_app) (schema_of demo_app project3) (''Lead'', JStr []) =
     ''Lead: ''"
proof -
  let ?render = "render_entry (sorted_records demo_app) (schema_of demo_app project3)"
  have d: "distinct (map rid (records demo_app))"
    by (simp add: demo_app_def task1_def project2_def project3_def)
  have s: "schema_of demo_app project3 = Some project_schema" by code_simp
  have pl: "find (\<lambda>p. pname p = ''Lead'') (properties project_schema) = Some lead_prop"
    by (simp add: project_schema_def lead_prop_def)
  have po: "find (\<lambda>p. pname p = ''Owner'') (properties project_schema) = Some owner_prop"
    by (simp add: project_schema_def owner_prop_def)
  have ty: "ptype lead_prop = ''Relation''" "ptype owner_prop = ''Relation''"
    by (simp_all add: lead_prop_def owner_prop_def)
  have ids: "set (records demo_app) = {task1, project2, project3}"
    "rid task1 = 1" "rid project2 = 2" "rid project3 = 3"
    by (auto simp: demo_app_def task1_def project2_def project3_def)
  have n2: "loose_eq_id (Own (JStr ''2'')) (rid project2)" by code_simp
  have t2: "map_of (data project2) ''Title'' = Some (JStr ''Apollo'')"
    by (simp add: project2_def)
  have a: "?render (''Lead'', JStr ''2'') = ''Lead: '' @ to_string (JStr ''Apollo'')"
    using relation_label_resolution
      [OF d s pl ty(1), where v = "JStr ''2''" and t = project2 and tv = "JStr ''Apollo''"]
      n2 t2 ids(1)
    by simp
  have n7: "\<not> loose_eq_id (Own (JStr ''7'')) 1" "\<not> loose_eq_id (Own (JStr ''7'')) 2"
    "\<not> loose_eq_id (Own (JStr ''7'')) 3"
    by code_simp+
  have b: "?render (''Owner'', JStr ''7'') =
      ''Owner: '' @ silinmis_kayit @ to_string (JStr ''7'') @ '')''"
    using relation_label_resolution [OF d s po ty(2), where v = "JStr ''7''"] n7 ids
    by simp
  have ni: "\<not> loose_eq_id (Own (JStr ''Important'')) 1"
    "\<not> loose_eq_id (Own (JStr ''Important'')) 2" "\<not> loose_eq_id (Own (JStr ''Important'')) 3"
    by code_simp+
  have c: "?render (''Owner'', JStr ''Important'') =
      ''Owner: '' @ silinmis_kayit @ to_string (JStr ''Important'') @ '')''"
    using relation_label_resolution [OF d s po ty(2), where v = "JStr ''Important''"] ni ids
    by simp
  have n1: "loose_eq_id (Own (JStr ''1.0'')) (rid task1)" by code_simp
  have t1: "\<forall>x. map_of (data task1) ''Title'' = Some x \<longrightarrow> \<not> truthy x"
    "\<forall>y ys. data task1 = y # ys \<longrightarrow> \<not> truthy (snd y)"
    by (simp_all add: task1_def)
  have e: "?render (''Owner'', JStr ''1.0'') =
      ''Owner: '' @ kayit_label @ to_string (JStr ''1.0'')"
    using relation_label_resolution
      [OF d s po ty(2), where v = "JStr ''1.0''" and t = task1]
      n1 t1 ids(1)
    by simp
  have f: "?render (''Lead'', JStr []) = ''Lead: '' @ to_string (JStr [])"
    using relation_label_resolution [OF d s pl ty(1), where w = "JStr []"] by simp
  from a b c e f show ?thesis by simp
qed

text \<open>
  Against C3 as stated: the target of Owner in the second record is the Task record, which
  has no Title and whose first data value is the boolean false, yet the label is the
  fallback and not that value; and the empty Lead value matches no record, yet the text
  carries no placeholder.
\<close>

theorem relation_label_counterexample:
  "task1 \<in> set (records demo_app) \<and>
   to_number (JStr ''1'') = Num (int (rid task1)) \<and>
   map_of (data task1) ''Title'' = None \<and>
   data task1 = [(''Done'', JBool False), (''Name'', JStr ''Ship spec'')] \<and>
   spec_relation_label task1 = ''false'' \<and>
   render_entry (sorted_records demo_app) (schema_of demo_app project2) (''Owner'', JStr ''1'') =
     ''Owner: '' @ kayit_label @ ''1'' \<and>
   render_entry (sorted_records demo_app) (schema_of demo_app project2) (''Owner'', JStr ''1'') \<noteq>
     ''Owner: '' @ spec_relation_label task1 \<and>
   map rid (records demo_app) = [1, 2, 3] \<and>
   to_number (JStr []) = Num 0 \<and>
   render_entry (sorted_records demo_app) (schema_of demo_app project2) (''Lead'', JStr []) =
     ''Lead: '' \<and>
   ''Lead: '' \<noteq> ''Lead: '' @ silinmis_kayit @ [] @ '')''"
  by code_simp

text \<open>
  C10. The stored Relation value is compared with the record ids by \<^verbatim>\<open>==\<close>: the string
  \<^verbatim>\<open>String(id)\<close> of a stored record \<open>t\<close> resolves to the label of \<open>t\<close> in the table,
  and in the form of the property the option selected is the one of \<open>t\<close> and no other.
\<close>

theorem loose_relation_matching:
  assumes "distinct (map rid (records st))" and "t \<in> set (records st)"
    and "rid t \<le> 9007199254740992"
    and "schema_of st r = Some sc"
    and "find (\<lambda>q. pname q = pname p) (properties sc) = Some p"
    and "ptype p = ''Relation''"
    and "relatedSchema p = Some rs" and "rs \<noteq> []"
    and "obj_get existingData (pname p) = Own (JStr (show_nat (rid t)))"
  shows
    "render_entry (sorted_records st) (schema_of st r) (pname p, JStr (show_nat (rid t))) =
       pname p @ '': '' @
         to_string (case title_or_first (data t) of
                      Some l \<Rightarrow> l
                    | None \<Rightarrow> JStr (kayit_label @ show_nat (rid t))) \<and>
     buildForm_relation_options (recordStore_all st) p existingData =
       map (\<lambda>x. \<lparr>opt_value = show_nat (rid x),
                 opt_text =
                   to_string (case title_or_first (data x) of
                                Some l \<Rightarrow> l
                              | None \<Rightarrow> JStr (kayit_label @ show_nat (rid x))),
                 opt_selected = (rid x = rid t)\<rparr>)
         (filter (\<lambda>x. rschema x = rs) (records st))"
proof
  let ?v = "JStr (show_nat (rid t))"
  have tr: "truthy ?v" using show_nat_digits [of "rid t"] by simp
  have n: "to_number ?v = Num (int (rid t))"
    using assms(3) by (simp add: str_to_number_show_nat)
  have f: "find (\<lambda>r. loose_eq_id (Own ?v) (rid r)) (sorted_records st) = Some t"
    by (rule find_target [OF assms(1,2) n])
  show "render_entry (sorted_records st) (schema_of st r) (pname p, ?v) =
       pname p @ '': '' @
         to_string (case title_or_first (data t) of
                      Some l \<Rightarrow> l
                    | None \<Rightarrow> JStr (kayit_label @ show_nat (rid t)))"
    unfolding assms(4) render_entry_relation [OF assms(5,6) tr] f
    by (simp split: option.splits)
next
  have sel: "loose_eq_id (obj_get existingData (pname p)) m = (m = rid t)" for m
    unfolding assms(9) by (auto simp: str_to_number_show_nat [OF assms(3)])
  show "buildForm_relation_options (recordStore_all st) p existingData =
       map (\<lambda>x. \<lparr>opt_value = show_nat (rid x),
                 opt_text =
                   to_string (case title_or_first (data x) of
                                Some l \<Rightarrow> l
                              | None \<Rightarrow> JStr (kayit_label @ show_nat (rid x))),
                 opt_selected = (rid x = rid t)\<rparr>)
         (filter (\<lambda>x. rschema x = rs) (records st))"
    using assms(7,8)
    by (simp add: buildForm_relation_options_def recordStore_all_def relation_option_def sel)
qed

theorem loose_relation_matching_witness:
  "show_nat (rid task1) = ''1'' \<and>
   render_entry (sorted_records demo_app) (schema_of demo_app project2) (''Owner'', JStr ''1'') =
     ''Owner: '' @ kayit_label @ ''1'' \<and>
   buildForm_relation_options (recordStore_all demo_app) owner_prop (data project2) =
     [\<lparr>opt_value = ''1'', opt_text = kayit_label @ ''1'', opt_selected = True\<rparr>]"
proof -
  have d: "distinct (map rid (records demo_app))"
    by (simp add: demo_app_def task1_def project2_def project3_def)
  have t: "task1 \<in> set (records demo_app)" by (simp add: demo_app_def)
  have b: "rid task1 \<le> 9007199254740992" by (simp add: task1_def)
  have s: "schema_of demo_app project2 = Some project_schema" by code_simp
  have po: "find (\<lambda>q. pname q = pname owner_prop) (properties project_schema) = Some owner_prop"
    by (simp add: project_schema_def owner_prop_def)
  have ty: "ptype owner_prop = ''Relation''" and rs: "relatedSchema owner_prop = Some ''Task''"
    and ne: "''Task'' \<noteq> []" and pn: "pname owner_prop = ''Owner''"
    by (simp_all add: owner_prop_def)
  have sh: "show_nat (rid task1) = ''1''" by code_simp
  have ex: "obj_get (data project2) (pname owner_prop) = Own (JStr (show_nat (rid task1)))"
    unfolding sh by code_simp
  have tf: "title_or_first (data task1) = None" by code_simp
  have fl: "filter (\<lambda>x. rschema x = ''Task'') (records demo_app) = [task1]"
    by (simp add: demo_app_def task1_def project2_def project3_def)
  from loose_relation_matching [OF d t b s po ty rs ne ex] sh tf fl pn
  show ?thesis by simp
qed

end
